theory Spec2Isabelle
  imports Complex_Main
begin

section \<open>Python values and conversions used by the controller\<close>

text \<open>
  The controller (\<^verbatim>\<open>src/apps/lights.py\<close>, class \<^verbatim>\<open>LightController\<close>) reads entity states
  (strings) and attributes (numbers, strings or nothing) from its host and converts them with
  Python's \<^verbatim>\<open>str.lower\<close>, \<^verbatim>\<open>int\<close>, \<^verbatim>\<open>float\<close> and \<^verbatim>\<open>round\<close>. Strings are byte lists here, so the
  conversions below are the ASCII part of the Python ones. Floats are modelled by exact reals
  together with the three special values that \<^verbatim>\<open>float\<close> can produce from a string.
\<close>

definition lower_char :: "char \<Rightarrow> char" where
  "lower_char c =
     (case map_of (zip ''ABCDEFGHIJKLMNOPQRSTUVWXYZ'' ''abcdefghijklmnopqrstuvwxyz'') c of
        None \<Rightarrow> c
      | Some l \<Rightarrow> l)"

definition lower :: "string \<Rightarrow> string" where
  "lower s = map lower_char s"

definition is_space :: "char \<Rightarrow> bool" where
  "is_space c =
     (let n = (of_char c :: nat) in (9 \<le> n \<and> n \<le> 13) \<or> (28 \<le> n \<and> n \<le> 32))"

definition strip :: "string \<Rightarrow> string" where
  "strip s = rev (dropWhile is_space (rev (dropWhile is_space s)))"

definition is_digit :: "char \<Rightarrow> bool" where
  "is_digit c = (let n = (of_char c :: nat) in 48 \<le> n \<and> n \<le> 57)"

definition digit_val :: "char \<Rightarrow> int" where
  "digit_val c = int (of_char c) - 48"

fun starts_with :: "string \<Rightarrow> string \<Rightarrow> bool" where
  "starts_with s [] = True"
| "starts_with [] (p # ps) = False"
| "starts_with (c # cs) (p # ps) = (c = p \<and> starts_with cs ps)"

text \<open>\<^verbatim>\<open>sub in s\<close> on strings: \<open>sub\<close> occurs in \<open>s\<close> as a contiguous block.\<close>

fun contains :: "string \<Rightarrow> string \<Rightarrow> bool" where
  "contains [] sub = (sub = [])"
| "contains (c # cs) sub = (starts_with (c # cs) sub \<or> contains cs sub)"

text \<open>\<^verbatim>\<open>s.split(sep)\<close> for a one-character separator: never the empty list.\<close>

fun split_on :: "char \<Rightarrow> string \<Rightarrow> string list" where
  "split_on sep [] = [[]]"
| "split_on sep (c # cs) =
     (if c = sep then [] # split_on sep cs
      else (case split_on sep cs of
              [] \<Rightarrow> [[c]]
            | p # ps \<Rightarrow> (c # p) # ps))"

text \<open>
  A group of decimal digits in which single underscores may separate digits, as \<^verbatim>\<open>int\<close> and
  \<^verbatim>\<open>float\<close> accept it; the value is accumulated from the left.
\<close>

fun digits_val :: "int \<Rightarrow> string \<Rightarrow> int option" where
  "digits_val acc [] = Some acc"
| "digits_val acc (c # cs) =
     (if is_digit c then digits_val (10 * acc + digit_val c) cs
      else if c = CHR ''_'' then
        (case cs of [] \<Rightarrow> None
         | d # ds \<Rightarrow> if is_digit d then digits_val acc cs else None)
      else None)"

definition digit_group :: "string \<Rightarrow> int option" where
  "digit_group s =
     (case s of [] \<Rightarrow> None
      | c # cs \<Rightarrow> if is_digit c then digits_val 0 s else None)"

text \<open>\<^verbatim>\<open>int(s)\<close> for a string: \<open>None\<close> where Python raises \<^verbatim>\<open>ValueError\<close>.\<close>

definition py_int_of_string :: "string \<Rightarrow> int option" where
  "py_int_of_string s =
     (case strip s of [] \<Rightarrow> None
      | c # cs \<Rightarrow>
          if c = CHR ''-'' then map_option uminus (digit_group cs)
          else if c = CHR ''+'' then digit_group cs
          else digit_group (c # cs))"

datatype pyfloat = Finite real | PosInf | NegInf | NaN

definition is_dig_or_us :: "char \<Rightarrow> bool" where
  "is_dig_or_us c = (is_digit c \<or> c = CHR ''_'')"

text \<open>The exponent part of a float literal: empty, or \<^verbatim>\<open>e\<close>, an optional sign and digits.\<close>

definition float_exponent :: "string \<Rightarrow> int option" where
  "float_exponent s =
     (case s of [] \<Rightarrow> Some 0
      | c # cs \<Rightarrow>
          if c = CHR ''e'' \<or> c = CHR ''E'' then
            (case cs of [] \<Rightarrow> None
             | d # ds \<Rightarrow>
                 if d = CHR ''-'' then map_option uminus (digit_group ds)
                 else if d = CHR ''+'' then digit_group ds
                 else digit_group cs)
          else None)"

definition scale10 :: "real \<Rightarrow> int \<Rightarrow> real" where
  "scale10 x e = (if 0 \<le> e then x * 10 ^ nat e else x / 10 ^ nat (- e))"

text \<open>An unsigned decimal literal: digits, an optional point and digits, an optional exponent.\<close>

definition float_unsigned :: "string \<Rightarrow> real option" where
  "float_unsigned s =
     (let ip = takeWhile is_dig_or_us s; r1 = dropWhile is_dig_or_us s;
          has_pt = (case r1 of [] \<Rightarrow> False | c # cs \<Rightarrow> c = CHR ''.'');
          r2 = (if has_pt then tl r1 else r1);
          fp = (if has_pt then takeWhile is_dig_or_us r2 else []);
          r3 = (if has_pt then dropWhile is_dig_or_us r2 else r2)
      in if ip = [] \<and> fp = [] then None
         else
           (case (if ip = [] then Some 0 else digit_group ip,
                  if fp = [] then Some 0 else digit_group fp,
                  float_exponent r3) of
              (Some i, Some f, Some e) \<Rightarrow>
                Some (scale10 (of_int i + of_int f / 10 ^ length (filter is_digit fp)) e)
            | _ \<Rightarrow> None))"

definition float_magnitude :: "string \<Rightarrow> pyfloat option" where
  "float_magnitude s =
     (if lower s = ''inf'' \<or> lower s = ''infinity'' then Some PosInf
      else if lower s = ''nan'' then Some NaN
      else map_option Finite (float_unsigned s))"

definition fl_neg :: "pyfloat \<Rightarrow> pyfloat" where
  "fl_neg x = (case x of Finite r \<Rightarrow> Finite (- r) | PosInf \<Rightarrow> NegInf | NegInf \<Rightarrow> PosInf | NaN \<Rightarrow> NaN)"

text \<open>\<^verbatim>\<open>float(s)\<close> for a string: \<open>None\<close> where Python raises \<^verbatim>\<open>ValueError\<close>.\<close>

definition py_float_of_string :: "string \<Rightarrow> pyfloat option" where
  "py_float_of_string s =
     (case strip s of [] \<Rightarrow> None
      | c # cs \<Rightarrow>
          if c = CHR ''-'' then map_option fl_neg (float_magnitude cs)
          else if c = CHR ''+'' then float_magnitude cs
          else float_magnitude (c # cs))"

text \<open>
  The values an entity attribute or a configuration option can hold. A float held by an
  attribute is finite.
\<close>

datatype pyval = PNone | PBool bool | PInt int | PFloat real | PStr string

definition truthy :: "pyval \<Rightarrow> bool" where
  "truthy v =
     (case v of PNone \<Rightarrow> False | PBool b \<Rightarrow> b | PInt i \<Rightarrow> i \<noteq> 0
      | PFloat r \<Rightarrow> r \<noteq> 0 | PStr s \<Rightarrow> s \<noteq> [])"

text \<open>\<^verbatim>\<open>isinstance(v, (int, float))\<close>; a Python bool is an int.\<close>

definition is_number :: "pyval \<Rightarrow> bool" where
  "is_number v = (case v of PBool b \<Rightarrow> True | PInt i \<Rightarrow> True | PFloat r \<Rightarrow> True | _ \<Rightarrow> False)"

definition trunc :: "real \<Rightarrow> int" where
  "trunc r = (if 0 \<le> r then \<lfloor>r\<rfloor> else \<lceil>r\<rceil>)"

text \<open>\<^verbatim>\<open>int(v)\<close>: \<open>None\<close> where Python raises.\<close>

definition py_int :: "pyval \<Rightarrow> int option" where
  "py_int v =
     (case v of PNone \<Rightarrow> None
      | PBool b \<Rightarrow> Some (if b then 1 else 0)
      | PInt i \<Rightarrow> Some i
      | PFloat r \<Rightarrow> Some (trunc r)
      | PStr s \<Rightarrow> py_int_of_string s)"

text \<open>\<^verbatim>\<open>float(v)\<close>: \<open>None\<close> where Python raises.\<close>

definition py_float :: "pyval \<Rightarrow> pyfloat option" where
  "py_float v =
     (case v of PNone \<Rightarrow> None
      | PBool b \<Rightarrow> Some (Finite (if b then 1 else 0))
      | PInt i \<Rightarrow> Some (Finite (of_int i))
      | PFloat r \<Rightarrow> Some (Finite r)
      | PStr s \<Rightarrow> py_float_of_string s)"

text \<open>\<^verbatim>\<open>round(x)\<close> with one argument rounds to the nearest integer, ties to the even one.\<close>

definition py_round :: "real \<Rightarrow> int" where
  "py_round x =
     (let f = \<lfloor>x\<rfloor>; d = x - of_int f
      in if d < 1 / 2 then f else if 1 / 2 < d then f + 1
         else if even f then f else f + 1)"

text \<open>\<^verbatim>\<open>round\<close> raises on an infinity and on a NaN.\<close>

definition fl_round :: "pyfloat \<Rightarrow> int option" where
  "fl_round x = (case x of Finite r \<Rightarrow> Some (py_round r) | _ \<Rightarrow> None)"

text \<open>Comparison, subtraction and absolute value of floats; every comparison with a NaN is false.\<close>

definition fl_le :: "pyfloat \<Rightarrow> pyfloat \<Rightarrow> bool" where
  "fl_le x y =
     (case (x, y) of
        (NaN, _) \<Rightarrow> False
      | (_, NaN) \<Rightarrow> False
      | (NegInf, _) \<Rightarrow> True
      | (_, PosInf) \<Rightarrow> True
      | (Finite a, Finite b) \<Rightarrow> a \<le> b
      | _ \<Rightarrow> False)"

definition fl_sub :: "pyfloat \<Rightarrow> pyfloat \<Rightarrow> pyfloat" where
  "fl_sub x y =
     (case (x, y) of
        (NaN, _) \<Rightarrow> NaN
      | (_, NaN) \<Rightarrow> NaN
      | (Finite a, Finite b) \<Rightarrow> Finite (a - b)
      | (PosInf, PosInf) \<Rightarrow> NaN
      | (NegInf, NegInf) \<Rightarrow> NaN
      | (PosInf, _) \<Rightarrow> PosInf
      | (NegInf, _) \<Rightarrow> NegInf
      | (_, PosInf) \<Rightarrow> NegInf
      | (_, NegInf) \<Rightarrow> PosInf)"

definition fl_abs :: "pyfloat \<Rightarrow> pyfloat" where
  "fl_abs x = (case x of Finite r \<Rightarrow> Finite \<bar>r\<bar> | PosInf \<Rightarrow> PosInf | NegInf \<Rightarrow> PosInf | NaN \<Rightarrow> NaN)"

text \<open>\<^verbatim>\<open>1000000.0 / m\<close> for a float \<open>m\<close> that is not zero.\<close>

definition fl_million_over :: "pyfloat \<Rightarrow> pyfloat" where
  "fl_million_over m =
     (case m of Finite r \<Rightarrow> Finite (1000000 / r) | PosInf \<Rightarrow> Finite 0 | NegInf \<Rightarrow> Finite 0
      | NaN \<Rightarrow> NaN)"

section \<open>Time-based blocking\<close>

text \<open>
  One entry of \<^verbatim>\<open>block_windows\<close>: the values under its keys \<^verbatim>\<open>start\<close>, \<^verbatim>\<open>end\<close>, \<^verbatim>\<open>days\<close> and
  \<^verbatim>\<open>actions\<close>. The start and the end are strings, \<open>None\<close> when the key is absent; \<open>w_days\<close>
  is the list that \<^verbatim>\<open>_as_list\<close> makes of the \<^verbatim>\<open>days\<close> value, empty when there is none; an
  absent \<^verbatim>\<open>actions\<close> reads as \<open>PNone\<close>.
\<close>

record window =
  w_start :: "string option"
  w_end :: "string option"
  w_days :: "string list"
  w_actions :: pyval

text \<open>\<^verbatim>\<open>str(v)\<close> and the f-string rendering of a value that is a string or \<^verbatim>\<open>None\<close>.\<close>

definition py_str :: "string option \<Rightarrow> string" where
  "py_str v = (case v of None \<Rightarrow> ''None'' | Some s \<Rightarrow> s)"

text \<open>\<^verbatim>\<open>_norm_actions\<close>\<close>

definition norm_actions :: "pyval \<Rightarrow> string option" where
  "norm_actions val =
     (case val of
        PBool b \<Rightarrow> (if b then Some ''on_off'' else None)
      | PStr s \<Rightarrow>
          (let v = lower (strip s)
           in if v = ''on'' \<or> v = ''off'' \<or> v = ''on_off'' then Some v else None)
      | _ \<Rightarrow> None)"

text \<open>\<^verbatim>\<open>_parse_hhmm\<close>: \<open>None\<close> when a part is missing or is not an integer.\<close>

definition parse_hhmm :: "string option \<Rightarrow> int option" where
  "parse_hhmm s =
     (case split_on (CHR '':'') (py_str s) of
        p0 # p1 # rest \<Rightarrow>
          (case py_int_of_string p0 of None \<Rightarrow> None
           | Some h \<Rightarrow>
               (case py_int_of_string p1 of None \<Rightarrow> None
                | Some m \<Rightarrow> Some (h * 60 + m)))
      | _ \<Rightarrow> None)"

text \<open>\<^verbatim>\<open>_within_window\<close>\<close>

definition within_window :: "int option \<Rightarrow> int option \<Rightarrow> int \<Rightarrow> bool" where
  "within_window start_min end_min now_min =
     (case start_min of None \<Rightarrow> False
      | Some s \<Rightarrow>
          (case end_min of None \<Rightarrow> False
           | Some e \<Rightarrow>
               if s = e then False
               else if s < e then s \<le> now_min \<and> now_min < e
               else now_min \<ge> s \<or> now_min < e))"

section \<open>Configuration, environment and controller state\<close>

text \<open>
  The options \<^verbatim>\<open>initialize\<close> reads from the app's arguments, after its normalisation: entity
  lists are lists, numeric options are numbers, an absent option is \<open>None\<close>.
\<close>

record config =
  app_name :: string
  lights :: "string list"
  motion_entities :: "string list"
  lux_sensor :: "string option"
  lux_threshold :: "real option"
  only_when_dark :: bool
  delay_off :: real
  manual_off_reauto_delay :: real
  motion_reauto_seconds :: real
  boot_grace :: real
  echo_window :: real
  echo_max_window :: real
  media_dim_brightness_pct :: "int option"
  auto_brightness_pct :: "int option"
  al_switch :: "string option"
  al_use_targets :: bool
  al_take_over_on_manual :: bool
  al_manual_reset_seconds :: "int option"
  al_adapt_brightness :: "bool option"
  al_adapt_color :: "bool option"
  quiet_start :: "string option"
  quiet_end :: "string option"
  block_windows :: "window list"
  block_actions :: pyval

text \<open>Truth value of an optional string: \<^verbatim>\<open>None\<close> and the empty string are false.\<close>

definition str_truthy :: "string option \<Rightarrow> bool" where
  "str_truthy v = (case v of None \<Rightarrow> False | Some s \<Rightarrow> s \<noteq> [])"

text \<open>\<^verbatim>\<open>self._norm_actions(cfg.get("block_actions")) or "on_off"\<close>\<close>

definition block_actions_default :: "config \<Rightarrow> string" where
  "block_actions_default cfg =
     (case norm_actions (block_actions cfg) of None \<Rightarrow> ''on_off'' | Some a \<Rightarrow> a)"

definition reauto_button :: "config \<Rightarrow> string" where
  "reauto_button cfg = ''button.reautomate_'' @ app_name cfg"

text \<open>
  What a handler reads from its host while it runs: the clock (\<^verbatim>\<open>time.time()\<close>), the local
  minute of the day and the lower-cased weekday name (\<^verbatim>\<open>datetime.now()\<close>), and the state and
  attributes of entities (\<^verbatim>\<open>get_state\<close>). One handler run sees one clock value.
\<close>

record env =
  now_ts :: real
  now_min :: int
  day :: string
  get_state :: "string \<Rightarrow> string option"
  get_attr :: "string \<Rightarrow> string \<Rightarrow> pyval option"

datatype mode = Auto | ManualOn | ManualOff

record echo =
  until :: real
  expected :: string
  logged :: bool

datatype callback =
    AutoOffElapsed
  | ReautomateFromMotion
  | ReautomateFromManualOff
  | AlResetTimerCb string

record timer =
  t_handle :: nat
  t_cb :: callback
  t_due :: real

datatype logarg = AStr string | AInt int | AFloat "pyfloat option"

text \<open>
  What a handler does to the outside: a service call (service, entity and numeric data), a
  call to the adaptation service (service, switch, lights), a log line (text and interpolated
  values) and the two published snapshots (mode, presence, media playing; the debug one with
  the clock). The host's \<^verbatim>\<open>call_service\<close>, \<^verbatim>\<open>set_state\<close> and \<^verbatim>\<open>log\<close> are taken not to raise.
\<close>

datatype effect =
    Call string string "(string \<times> int) list"
  | CallAL string string "string list"
  | Log string "logarg list"
  | PublishStatus mode bool bool
  | PublishDebug mode bool bool real

record state =
  mode :: mode
  presence :: bool
  off_timer :: "nat option"
  motion_reauto_timer :: "nat option"
  started_ts :: real
  expected_echo :: "string \<rightharpoonup> echo"
  last_cmd_by_entity :: "string \<rightharpoonup> (string \<times> real)"
  media_playing :: bool
  before_media_brightness_pct :: "(string \<times> int option) list"
  al_manual_timers :: "string \<rightharpoonup> nat"
  pending :: "timer list"
  next_handle :: nat
  trace :: "effect list"

text \<open>The internal state \<^verbatim>\<open>initialize\<close> sets up; no timer is pending, nothing has been done yet.\<close>

definition initial_state :: "env \<Rightarrow> state" where
  "initial_state e =
     \<lparr> mode = Auto, presence = False, off_timer = None, motion_reauto_timer = None,
       started_ts = now_ts e, expected_echo = Map.empty, last_cmd_by_entity = Map.empty,
       media_playing = False, before_media_brightness_pct = [], al_manual_timers = Map.empty,
       pending = [], next_handle = 0, trace = [] \<rparr>"

text \<open>
  A handler either runs to its end or is cut short by an exception it does not catch; the
  state it had changed up to then stays changed.
\<close>

datatype 'a res = Ok 'a | Exn 'a

definition after :: "'a res \<Rightarrow> ('a \<Rightarrow> 'a) \<Rightarrow> 'a res" where
  "after r f = (case r of Ok s \<Rightarrow> Ok (f s) | Exn s \<Rightarrow> Exn s)"

definition final :: "'a res \<Rightarrow> 'a" where
  "final r = (case r of Ok s \<Rightarrow> s | Exn s \<Rightarrow> s)"

definition emit :: "effect \<Rightarrow> state \<Rightarrow> state" where
  "emit x st = st\<lparr>trace := trace st @ [x]\<rparr>"

text \<open>\<^verbatim>\<open>_publish_status\<close> followed by \<^verbatim>\<open>_publish_debug_state\<close>\<close>

definition publish :: "env \<Rightarrow> state \<Rightarrow> state" where
  "publish e st =
     emit (PublishDebug (mode st) (presence st) (media_playing st) (now_ts e))
       (emit (PublishStatus (mode st) (presence st) (media_playing st)) st)"

subsection \<open>Timers of the host\<close>

text \<open>
  \<^verbatim>\<open>run_in\<close> registers a one-shot timer and returns a fresh handle; \<^verbatim>\<open>cancel_timer\<close> removes the
  timer with that handle, and \<^verbatim>\<open>_cancel_timer_safe\<close> does nothing without a handle.
\<close>

definition run_in :: "env \<Rightarrow> callback \<Rightarrow> real \<Rightarrow> state \<Rightarrow> nat \<times> state" where
  "run_in e cb delay st =
     (next_handle st,
      st\<lparr>pending := pending st @ [\<lparr>t_handle = next_handle st, t_cb = cb, t_due = now_ts e + delay\<rparr>],
         next_handle := Suc (next_handle st)\<rparr>)"

definition cancel_timer_safe :: "nat option \<Rightarrow> state \<Rightarrow> state" where
  "cancel_timer_safe h st =
     (case h of None \<Rightarrow> st
      | Some n \<Rightarrow> st\<lparr>pending := filter (\<lambda>t. t_handle t \<noteq> n) (pending st)\<rparr>)"

subsection \<open>Blocking, darkness, presence\<close>

text \<open>
  The loop of \<^verbatim>\<open>_blocked_now\<close> over the windows: the first window that contains the time and
  allows the day decides. \<open>None\<close> is the pair \<^verbatim>\<open>(False, None)\<close>, \<open>Some why\<close> is \<^verbatim>\<open>(True, why)\<close>.
\<close>

fun blocked_windows :: "string \<Rightarrow> int \<Rightarrow> string \<Rightarrow> window list \<Rightarrow> string option" where
  "blocked_windows dflt now d [] = None"
| "blocked_windows dflt now d (w # ws) =
     (if \<not> within_window (parse_hhmm (w_start w)) (parse_hhmm (w_end w)) now
      then blocked_windows dflt now d ws
      else if w_days w \<noteq> [] \<and> take 3 d \<notin> set (map (\<lambda>x. take 3 (lower x)) (w_days w))
      then blocked_windows dflt now d ws
      else Some ((case norm_actions (w_actions w) of None \<Rightarrow> dflt | Some a \<Rightarrow> a)
                   @ '' '' @ py_str (w_start w) @ ''-'' @ py_str (w_end w)))"

text \<open>\<^verbatim>\<open>_blocked_now\<close>\<close>

definition blocked_now :: "config \<Rightarrow> env \<Rightarrow> string option" where
  "blocked_now cfg e =
     (case blocked_windows (block_actions_default cfg) (now_min e) (day e) (block_windows cfg) of
        Some why \<Rightarrow> Some why
      | None \<Rightarrow>
          (let s = (if str_truthy (quiet_start cfg) then parse_hhmm (quiet_start cfg) else None);
               e' = (if str_truthy (quiet_end cfg) then parse_hhmm (quiet_end cfg) else None)
           in if within_window s e' (now_min e)
              then Some (block_actions_default cfg @ '' '' @ py_str (quiet_start cfg)
                           @ ''-'' @ py_str (quiet_end cfg))
              else None))"

text \<open>\<^verbatim>\<open>_automation_allowed\<close>\<close>

definition automation_allowed :: "config \<Rightarrow> env \<Rightarrow> string \<Rightarrow> bool" where
  "automation_allowed cfg e action =
     (case blocked_now cfg e of
        None \<Rightarrow> True
      | Some why \<Rightarrow>
          if contains why ''on_off'' then False
          else if action = ''on'' \<and> contains why '' on'' then False
          else if action = ''off'' \<and> contains why '' off'' then False
          else True)"

text \<open>\<^verbatim>\<open>_is_dark_enough\<close>\<close>

definition is_dark_enough :: "config \<Rightarrow> env \<Rightarrow> bool" where
  "is_dark_enough cfg e =
     (if \<not> only_when_dark cfg \<or> \<not> str_truthy (lux_sensor cfg) then True
      else
        (case (case get_state e (py_str (lux_sensor cfg)) of
                 None \<Rightarrow> None
               | Some val \<Rightarrow> py_float_of_string val) of
           None \<Rightarrow> True
         | Some lux \<Rightarrow>
             (case lux_threshold cfg of
                None \<Rightarrow> True
              | Some low \<Rightarrow> fl_le lux (Finite low))))"

text \<open>\<^verbatim>\<open>(v or "").lower()\<close>\<close>

definition lower_state :: "string option \<Rightarrow> string" where
  "lower_state v = lower (case v of None \<Rightarrow> [] | Some s \<Rightarrow> s)"

definition state_on :: "string option \<Rightarrow> bool" where
  "state_on v = (lower_state v = ''on'')"

definition occupied :: "string option \<Rightarrow> bool" where
  "occupied v = (lower_state v \<in> set [''on'', ''home'', ''occupied'', ''true'', ''1''])"

text \<open>\<^verbatim>\<open>_any_light_on\<close> and \<^verbatim>\<open>_any_motion_on\<close>\<close>

definition any_light_on :: "config \<Rightarrow> env \<Rightarrow> bool" where
  "any_light_on cfg e = list_ex (\<lambda>l. state_on (get_state e l)) (lights cfg)"

definition any_motion_on :: "config \<Rightarrow> env \<Rightarrow> bool" where
  "any_motion_on cfg e = list_ex (\<lambda>ent. occupied (get_state e ent)) (motion_entities cfg)"

subsection \<open>Echo protection\<close>

text \<open>\<^verbatim>\<open>_mark_expected_echo\<close>\<close>

definition mark_expected_echo :: "config \<Rightarrow> env \<Rightarrow> string \<Rightarrow> state \<Rightarrow> state" where
  "mark_expected_echo cfg e s st =
     fold (\<lambda>l st'. st'\<lparr>expected_echo := (expected_echo st')(l \<mapsto>
                          \<lparr>until = min (now_ts e + echo_window cfg) (now_ts e + echo_max_window cfg),
                           expected = s, logged = False\<rparr>),
                        last_cmd_by_entity := (last_cmd_by_entity st')(l \<mapsto> (s, now_ts e))\<rparr>)
       (lights cfg) st"

text \<open>The body shared by the two matching branches: log once, then remember that it was logged.\<close>

definition ack_echo :: "string \<Rightarrow> echo \<Rightarrow> state \<Rightarrow> state" where
  "ack_echo entity ex st =
     (if \<not> logged ex
      then (emit (Log ''Ignoring echo from our own service call.'' []) st)
             \<lparr>expected_echo := (expected_echo st)(entity \<mapsto> ex\<lparr>logged := True\<rparr>)\<rparr>
      else st)"

text \<open>\<^verbatim>\<open>_ignore_if_expected_echo\<close>\<close>

definition ignore_if_expected_echo ::
  "env \<Rightarrow> string \<Rightarrow> string option \<Rightarrow> string option \<Rightarrow> state \<Rightarrow> bool \<times> state" where
  "ignore_if_expected_echo e entity old new st =
     (case expected_echo st entity of
        None \<Rightarrow> (False, st)
      | Some ex \<Rightarrow>
          if now_ts e > until ex
          then (False, st\<lparr>expected_echo := (expected_echo st)(entity := None)\<rparr>)
          else if expected ex = ''on'' \<and> \<not> state_on old \<and> state_on new
          then (True, ack_echo entity ex st)
          else if expected ex = ''off'' \<and> state_on old \<and> \<not> state_on new
          then (True, ack_echo entity ex st)
          else (False, st))"

text \<open>\<^verbatim>\<open>_recent_app_change\<close> with its default \<^verbatim>\<open>seconds\<close>\<close>

definition recent_app_change :: "config \<Rightarrow> env \<Rightarrow> string \<Rightarrow> state \<Rightarrow> bool" where
  "recent_app_change cfg e entity st =
     (case last_cmd_by_entity st entity of
        None \<Rightarrow> False
      | Some (c, ts) \<Rightarrow> now_ts e - ts \<le> max (echo_window cfg) 3)"

subsection \<open>Adaptive Lighting helpers\<close>

text \<open>\<^verbatim>\<open>_mireds_to_kelvin\<close>\<close>

definition mireds_to_kelvin :: "pyval \<Rightarrow> int option" where
  "mireds_to_kelvin mireds =
     (case py_float mireds of
        None \<Rightarrow> None
      | Some m \<Rightarrow> if fl_le m (Finite 0) then None else fl_round (fl_million_over m))"

text \<open>\<^verbatim>\<open>self._al_switch_attrs().get(key)\<close>: \<open>None\<close> when the key is absent.\<close>

definition al_attr :: "config \<Rightarrow> env \<Rightarrow> string \<Rightarrow> pyval option" where
  "al_attr cfg e key =
     (case al_switch cfg of
        None \<Rightarrow> None
      | Some sw \<Rightarrow> if sw = [] then None else get_attr e sw key)"

definition or_none :: "pyval option \<Rightarrow> pyval" where
  "or_none v = (case v of None \<Rightarrow> PNone | Some x \<Rightarrow> x)"

text \<open>The numeric value of a number (used only where \<open>is_number\<close> holds).\<close>

definition num_of :: "pyval \<Rightarrow> real" where
  "num_of v =
     (case v of PBool b \<Rightarrow> (if b then 1 else 0) | PInt i \<Rightarrow> of_int i | PFloat r \<Rightarrow> r
      | PNone \<Rightarrow> 0 | PStr s \<Rightarrow> 0)"

text \<open>\<^verbatim>\<open>_al_current_targets\<close>\<close>

definition al_current_targets :: "config \<Rightarrow> env \<Rightarrow> pyval \<times> pyval \<times> bool \<times> bool" where
  "al_current_targets cfg e =
     (let bri0 = or_none (al_attr cfg e ''brightness_pct'');
          b2 = or_none (al_attr cfg e ''brightness'');
          bri = (if bri0 = PNone then (if is_number b2 then PInt (trunc (num_of b2)) else PNone)
                 else bri0);
          ct0 = or_none (al_attr cfg e ''color_temp_kelvin'');
          m = or_none (al_attr cfg e ''color_temp'');
          ct_kelvin = (if ct0 = PNone
                       then (if m \<noteq> PNone
                             then (case mireds_to_kelvin m of None \<Rightarrow> PNone | Some k \<Rightarrow> PInt k)
                             else PNone)
                       else ct0);
          adapt_b = (case al_adapt_brightness cfg of
                       Some b \<Rightarrow> b
                     | None \<Rightarrow> (case al_attr cfg e ''adapt_brightness'' of
                                  None \<Rightarrow> True | Some v \<Rightarrow> truthy v));
          adapt_c = (case al_adapt_color cfg of
                       Some b \<Rightarrow> b
                     | None \<Rightarrow> (case al_attr cfg e ''adapt_color'' of
                                  None \<Rightarrow> True | Some v \<Rightarrow> truthy v))
      in (bri, ct_kelvin, adapt_b, adapt_c))"

text \<open>\<^verbatim>\<open>_al_set_manual_control\<close> and \<^verbatim>\<open>_al_reset\<close>, called with a non-empty list of lights.\<close>

definition al_set_manual_control :: "config \<Rightarrow> string list \<Rightarrow> state \<Rightarrow> state" where
  "al_set_manual_control cfg ls st =
     (if \<not> str_truthy (al_switch cfg) \<or> \<not> al_take_over_on_manual cfg then st
      else emit (Log ''Told Adaptive Lighting to enable manual control for these lights.'' [])
             (emit (CallAL ''adaptive_lighting/set_manual_control'' (py_str (al_switch cfg))
                      (if ls = [] then lights cfg else ls)) st))"

definition al_reset :: "config \<Rightarrow> string list \<Rightarrow> state \<Rightarrow> state" where
  "al_reset cfg ls st =
     (if \<not> str_truthy (al_switch cfg) then st
      else emit (Log ''Reset manual control on Adaptive Lighting for these lights.'' [])
             (emit (CallAL ''adaptive_lighting/reset'' (py_str (al_switch cfg))
                      (if ls = [] then lights cfg else ls)) st))"

text \<open>\<^verbatim>\<open>_al_schedule_reset_for\<close>\<close>

definition al_schedule_reset_for :: "config \<Rightarrow> env \<Rightarrow> string \<Rightarrow> state \<Rightarrow> state" where
  "al_schedule_reset_for cfg e entity st =
     (let h = al_manual_timers st entity;
          st1 = st\<lparr>al_manual_timers := (al_manual_timers st)(entity := None)\<rparr>;
          st2 = cancel_timer_safe h st1
      in case al_manual_reset_seconds cfg of
           None \<Rightarrow> st2
         | Some secs \<Rightarrow>
             if secs = 0 then st2
             else (case run_in e (AlResetTimerCb entity) (of_int secs) st2 of
                     (n, st3) \<Rightarrow> st3\<lparr>al_manual_timers := (al_manual_timers st3)(entity \<mapsto> n)\<rparr>))"

text \<open>\<^verbatim>\<open>_al_reset_timer_cb\<close>\<close>

definition al_reset_timer_cb :: "config \<Rightarrow> string \<Rightarrow> state \<Rightarrow> state" where
  "al_reset_timer_cb cfg ent st =
     al_reset cfg [ent]
       (emit (Log ''Manual window elapsed for {}; resetting Adaptive Lighting control.'' [AStr ent])
          (st\<lparr>al_manual_timers := (al_manual_timers st)(ent := None)\<rparr>))"

text \<open>
  The two halves of the \<^verbatim>\<open>try\<close> block of \<^verbatim>\<open>_al_is_change_like_al\<close>. \<open>None\<close>: a conversion raised;
  \<open>Some True\<close>: the half returns \<^verbatim>\<open>True\<close>; \<open>Some False\<close>: control falls through.
\<close>

definition al_brightness_match :: "string \<Rightarrow> pyval \<Rightarrow> pyval \<Rightarrow> bool option" where
  "al_brightness_match attr bri_t new =
     (if (attr = ''brightness'' \<or> attr = ''brightness_pct'') \<and> bri_t \<noteq> PNone then
        (case (if attr = ''brightness''
               then Some (if is_number new then Some (py_round (num_of new / 255 * 100)) else None)
               else if new = PNone then Some None
               else map_option Some (py_int new)) of
           None \<Rightarrow> None
         | Some None \<Rightarrow> Some False
         | Some (Some val) \<Rightarrow>
             (case py_int bri_t of
                None \<Rightarrow> None
              | Some t \<Rightarrow> Some (\<bar>t - val\<bar> \<le> 3)))
      else Some False)"

definition al_color_match :: "string \<Rightarrow> pyval \<Rightarrow> pyval \<Rightarrow> bool option" where
  "al_color_match attr ct_k_t new =
     (if (attr = ''color_temp'' \<or> attr = ''color_temp_kelvin'') \<and> ct_k_t \<noteq> PNone then
        (case (if attr = ''color_temp'' then Some (mireds_to_kelvin new)
               else if new = PNone then Some None
               else map_option Some (py_int new)) of
           None \<Rightarrow> None
         | Some None \<Rightarrow> Some False
         | Some (Some valk) \<Rightarrow>
             (case py_int ct_k_t of
                None \<Rightarrow> None
              | Some t \<Rightarrow> Some (\<bar>t - valk\<bar> \<le> 150)))
      else Some False)"

text \<open>\<^verbatim>\<open>_al_is_change_like_al\<close>\<close>

definition al_is_change_like_al :: "config \<Rightarrow> env \<Rightarrow> string \<Rightarrow> pyval \<Rightarrow> bool" where
  "al_is_change_like_al cfg e attr new =
     (if \<not> str_truthy (al_switch cfg)
         \<or> attr \<notin> set [''brightness'', ''brightness_pct'', ''color_temp'', ''color_temp_kelvin'']
      then False
      else
        (case al_current_targets cfg e of
           (bri_t, ct_k_t, ab, ac) \<Rightarrow>
             (case al_brightness_match attr bri_t new of
                None \<Rightarrow> False
              | Some True \<Rightarrow> True
              | Some False \<Rightarrow>
                  (case al_color_match attr ct_k_t new of
                     None \<Rightarrow> False
                   | Some b \<Rightarrow> b))))"

subsection \<open>Light control\<close>

definition bp_data :: "int option \<Rightarrow> (string \<times> int) list" where
  "bp_data bp = (case bp of None \<Rightarrow> [] | Some b \<Rightarrow> [(''brightness_pct'', b)])"

text \<open>The loop of \<^verbatim>\<open>_turn_on\<close> over the lights; \<^verbatim>\<open>int(ct_kelvin)\<close> can raise at a light.\<close>

fun turn_on_lights :: "int option \<Rightarrow> pyval \<Rightarrow> bool \<Rightarrow> string list \<Rightarrow> state \<Rightarrow> state res" where
  "turn_on_lights bp ct adapt_c [] st = Ok st"
| "turn_on_lights bp ct adapt_c (l # ls) st =
     (if starts_with l ''switch.''
      then turn_on_lights bp ct adapt_c ls (emit (Call ''switch/turn_on'' l []) st)
      else if ct \<noteq> PNone \<and> adapt_c then
        (case py_int ct of
           None \<Rightarrow> Exn st
         | Some k \<Rightarrow>
             turn_on_lights bp ct adapt_c ls
               (emit (Call ''light/turn_on'' l (bp_data bp @ [(''color_temp_kelvin'', k)])) st))
      else turn_on_lights bp ct adapt_c ls (emit (Call ''light/turn_on'' l (bp_data bp)) st))"

text \<open>\<^verbatim>\<open>_turn_on\<close>\<close>

definition turn_on :: "config \<Rightarrow> env \<Rightarrow> string \<Rightarrow> state \<Rightarrow> state res" where
  "turn_on cfg e reason st =
     (let st1 = mark_expected_echo cfg e ''on'' st
      in case (if str_truthy (al_switch cfg) \<and> al_use_targets cfg
               then al_current_targets cfg e else (PNone, PNone, True, True)) of
           (bri_target, ct_kelvin, adapt_b, adapt_c) \<Rightarrow>
             (let bp0 = (if media_playing st \<and> media_dim_brightness_pct cfg \<noteq> None
                         then media_dim_brightness_pct cfg
                         else auto_brightness_pct cfg)
              in case (if bp0 = None \<and> bri_target \<noteq> PNone \<and> adapt_b
                       then map_option Some (py_int bri_target) else Some bp0) of
                   None \<Rightarrow> Exn st1
                 | Some bp \<Rightarrow>
                     after (turn_on_lights bp ct_kelvin adapt_c (lights cfg) st1)
                       (emit (Log ''Turn ON ({}).'' [AStr reason]))))"

text \<open>\<^verbatim>\<open>_turn_off\<close>\<close>

definition turn_off :: "config \<Rightarrow> env \<Rightarrow> string \<Rightarrow> state \<Rightarrow> state" where
  "turn_off cfg e reason st =
     emit (Log ''Turn OFF ({}).'' [AStr reason])
       (fold (\<lambda>l. emit (Call (if starts_with l ''switch.'' then ''switch/turn_off''
                               else ''light/turn_off'') l []))
          (lights cfg) (mark_expected_echo cfg e ''off'' st))"

text \<open>\<^verbatim>\<open>_schedule_off\<close>\<close>

definition schedule_off :: "config \<Rightarrow> env \<Rightarrow> state \<Rightarrow> state" where
  "schedule_off cfg e st =
     (case run_in e AutoOffElapsed (delay_off cfg) (cancel_timer_safe (off_timer st) st) of
        (n, st1) \<Rightarrow>
          emit (Log ''Scheduled auto-off in {}s.'' [AInt (trunc (delay_off cfg))])
            (st1\<lparr>off_timer := Some n\<rparr>))"

text \<open>\<^verbatim>\<open>_auto_off_elapsed\<close>\<close>

definition auto_off_elapsed :: "config \<Rightarrow> env \<Rightarrow> state \<Rightarrow> state" where
  "auto_off_elapsed cfg e st =
     (if mode st = Auto \<and> \<not> presence st then
        (if automation_allowed cfg e ''off''
         then turn_off cfg e ''auto_off''
                (emit (Log ''Auto-off timer elapsed; turning light off.'' []) st)
         else emit (Log ''Auto-off elapsed but OFF is blocked; keeping lights as-is.'' []) st)
      else st)\<lparr>off_timer := None\<rparr>"

subsection \<open>Media handling\<close>

text \<open>One round of the loop of \<^verbatim>\<open>_apply_media_dimming\<close>.\<close>

definition media_dim_light :: "env \<Rightarrow> int \<Rightarrow> string \<Rightarrow> state \<Rightarrow> state" where
  "media_dim_light e target l st =
     (if \<not> starts_with l ''light.'' then st
      else
        (let bri = or_none (get_attr e l ''brightness'');
             st1 = (if map_of (before_media_brightness_pct st) l = None
                    then st\<lparr>before_media_brightness_pct := before_media_brightness_pct st @
                             [(l, if is_number bri
                                  then Some (max 1 (min 100 (py_round (num_of bri / 255 * 100))))
                                  else None)]\<rparr>
                    else st)
         in emit (Call ''light/turn_on'' l [(''brightness_pct'', target)]) st1))"

text \<open>\<^verbatim>\<open>_apply_media_dimming\<close>\<close>

definition apply_media_dimming :: "config \<Rightarrow> env \<Rightarrow> state \<Rightarrow> state" where
  "apply_media_dimming cfg e st =
     (case media_dim_brightness_pct cfg of
        None \<Rightarrow> st
      | Some target \<Rightarrow>
          (let st1 = fold (media_dim_light e target) (lights cfg) st
           in if list_ex (\<lambda>l. starts_with l ''light.'') (lights cfg)
              then emit (Log ''Media playing -> dimming lights.'' []) st1
              else st1))"

text \<open>\<^verbatim>\<open>_restore_from_media\<close>\<close>

definition restore_from_media :: "config \<Rightarrow> state \<Rightarrow> state" where
  "restore_from_media cfg st =
     (if before_media_brightness_pct st = [] then
        (case auto_brightness_pct cfg of
           None \<Rightarrow> st
         | Some a \<Rightarrow>
             emit (Log ''Media stopped -> setting lights to auto brightness.'' [])
               (fold (\<lambda>l s. if starts_with l ''light.''
                             then emit (Call ''light/turn_on'' l [(''brightness_pct'', a)]) s
                             else s)
                  (lights cfg) st))
      else
        emit (Log ''Media stopped -> restoring brightness.'' [])
          ((fold (\<lambda>(l, pct) s.
                    if \<not> starts_with l ''light.'' then s
                    else (case pct of
                            None \<Rightarrow> s
                          | Some p \<Rightarrow> emit (Call ''light/turn_on'' l [(''brightness_pct'', p)]) s))
              (before_media_brightness_pct st) st)
           \<lparr>before_media_brightness_pct := []\<rparr>))"

subsection \<open>Event handlers\<close>

text \<open>\<^verbatim>\<open>_on_motion\<close>\<close>

definition on_motion ::
  "config \<Rightarrow> env \<Rightarrow> string \<Rightarrow> string option \<Rightarrow> string option \<Rightarrow> state \<Rightarrow> state res" where
  "on_motion cfg e entity old new st =
     (let is_on = occupied new;
          st1 = st\<lparr>presence := is_on\<rparr>;
          st2 = (if mode st1 = ManualOn \<and> is_on then
                   (case run_in e ReautomateFromMotion (motion_reauto_seconds cfg)
                           (cancel_timer_safe (motion_reauto_timer st1) st1) of
                      (n, s) \<Rightarrow>
                        emit (Log ''Motion during manual_on; scheduling quick re-automate.'' [])
                          (s\<lparr>motion_reauto_timer := Some n\<rparr>))
                 else st1)
      in if mode st2 \<noteq> Auto then Ok (publish e st2)
         else if is_on then
           (let st3 = cancel_timer_safe (off_timer st2) st2
            in if \<not> automation_allowed cfg e ''on''
               then Ok (publish e
                          (emit (Log ''Motion but automation is blocked now; ignoring ON.'' []) st3))
               else if is_dark_enough cfg e then
                 (if \<not> any_light_on cfg e then after (turn_on cfg e ''motion'' st3) (publish e)
                  else if media_playing st3 \<and> media_dim_brightness_pct cfg \<noteq> None
                  then Ok (publish e (apply_media_dimming cfg e st3))
                  else Ok (publish e st3))
               else Ok (publish e
                          (emit (Log ''Motion but not dark; leaving lights as-is.'' []) st3)))
         else
           Ok (publish e
                 (if \<not> any_motion_on cfg e then
                    (if automation_allowed cfg e ''off'' then schedule_off cfg e st2
                     else emit (Log ''Motion cleared but OFF is blocked now; leaving lights as-is.'' [])
                            st2)
                  else st2)))"

text \<open>\<^verbatim>\<open>_on_light_power\<close>\<close>

definition on_light_power ::
  "config \<Rightarrow> env \<Rightarrow> string \<Rightarrow> string option \<Rightarrow> string option \<Rightarrow> state \<Rightarrow> state" where
  "on_light_power cfg e entity old new st =
     (if now_ts e - started_ts st < boot_grace cfg then st
      else
        (case ignore_if_expected_echo e entity old new st of
           (True, st1) \<Rightarrow> st1
         | (False, st1) \<Rightarrow>
             publish e
               (if state_on new \<and> \<not> state_on old then
                  (if mode st1 \<noteq> ManualOn then
                     al_schedule_reset_for cfg e entity
                       (al_set_manual_control cfg [entity]
                          (emit (Log ''Manual ON; pausing automation. (source=state_change:{}=on)''
                                   [AStr entity])
                             (cancel_timer_safe (off_timer st1) (st1\<lparr>mode := ManualOn\<rparr>))))
                   else st1)
                else if \<not> state_on new \<and> state_on old then
                  (if mode st1 \<noteq> ManualOff then
                     snd (run_in e ReautomateFromManualOff (manual_off_reauto_delay cfg)
                            (emit (Log ''Manual OFF (source=state_change:{}=off); will re-automate in {}s.''
                                     [AStr entity, AInt (trunc (manual_off_reauto_delay cfg))])
                               (cancel_timer_safe (off_timer st1) (st1\<lparr>mode := ManualOff\<rparr>))))
                   else st1)
                else st1)))"

text \<open>\<^verbatim>\<open>v or 0\<close>\<close>

definition or_zero :: "pyval \<Rightarrow> pyval" where
  "or_zero v = (if truthy v then v else PInt 0)"

definition ends_with :: "string \<Rightarrow> string \<Rightarrow> bool" where
  "ends_with s suf = starts_with (rev s) (rev suf)"

text \<open>
  \<^verbatim>\<open>o = float(old or 0); n = float(new or 0); abs(n - o) >= k\<close>; \<open>None\<close> when a conversion
  raises.
\<close>

definition abs_diff_ge :: "pyval \<Rightarrow> pyval \<Rightarrow> real \<Rightarrow> bool option" where
  "abs_diff_ge old new k =
     (case py_float (or_zero old) of
        None \<Rightarrow> None
      | Some ov \<Rightarrow>
          (case py_float (or_zero new) of
             None \<Rightarrow> None
           | Some nv \<Rightarrow> Some (fl_le (Finite k) (fl_abs (fl_sub nv ov)))))"

text \<open>\<^verbatim>\<open>_changed_meaningfully\<close>\<close>

definition changed_meaningfully :: "string \<Rightarrow> pyval \<Rightarrow> pyval \<Rightarrow> bool" where
  "changed_meaningfully attribute old new =
     (if attribute = ''brightness'' \<or> attribute = ''brightness_pct'' then
        (case abs_diff_ge old new 5 of None \<Rightarrow> True | Some b \<Rightarrow> b)
      else if attribute = ''color_temp'' \<or> attribute = ''color_temp_kelvin'' then
        (case abs_diff_ge old new (if ends_with attribute ''kelvin'' then 100 else 5) of
           None \<Rightarrow> True
         | Some b \<Rightarrow> b)
      else True)"

text \<open>\<^verbatim>\<open>_on_light_attr\<close>\<close>

definition on_light_attr ::
  "config \<Rightarrow> env \<Rightarrow> string \<Rightarrow> string \<Rightarrow> pyval \<Rightarrow> pyval \<Rightarrow> state \<Rightarrow> state" where
  "on_light_attr cfg e entity attribute old new st =
     (if now_ts e - started_ts st < boot_grace cfg then st
      else if recent_app_change cfg e entity st then st
      else if al_is_change_like_al cfg e attribute new then st
      else if \<not> changed_meaningfully attribute old new then st
      else if \<not> state_on (get_state e entity) then st
      else
        publish e
          (al_schedule_reset_for cfg e entity
             (al_set_manual_control cfg [entity]
                (if mode st \<noteq> ManualOn
                 then emit (Log ''Manual tweak on {} ({}) -> entering manual_on and pausing automation.''
                              [AStr entity, AStr attribute])
                        (cancel_timer_safe (off_timer st) (st\<lparr>mode := ManualOn\<rparr>))
                 else st))))"

text \<open>\<^verbatim>\<open>_on_lux_changed\<close>\<close>

definition on_lux_changed ::
  "config \<Rightarrow> env \<Rightarrow> string \<Rightarrow> string option \<Rightarrow> string option \<Rightarrow> state \<Rightarrow> state res" where
  "on_lux_changed cfg e entity old new st =
     (let st1 = emit (Log ''Lux changed: {}''
                        [AFloat (case new of None \<Rightarrow> None | Some v \<Rightarrow> py_float_of_string v)]) st
      in if mode st1 = Auto \<and> presence st1 \<and> is_dark_enough cfg e then
           (if \<not> any_light_on cfg e then
              (if automation_allowed cfg e ''on''
               then after (turn_on cfg e ''lux_dark_now'' st1) (publish e)
               else Ok (publish e (emit (Log ''Dark now but ON is blocked; ignoring.'' []) st1)))
            else if media_playing st1 \<and> media_dim_brightness_pct cfg \<noteq> None
            then Ok (publish e (apply_media_dimming cfg e st1))
            else Ok (publish e st1))
         else Ok (publish e st1))"

text \<open>\<^verbatim>\<open>_on_media_state\<close>\<close>

definition on_media_state ::
  "config \<Rightarrow> env \<Rightarrow> string \<Rightarrow> string option \<Rightarrow> string option \<Rightarrow> state \<Rightarrow> state" where
  "on_media_state cfg e entity old new st =
     (let st1 = emit (Log ''Media state on {}: {}'' [AStr entity, AStr (py_str new)])
                  (st\<lparr>media_playing := (lower_state new = ''playing'')\<rparr>)
      in if mode st1 \<noteq> Auto then publish e st1
         else if media_playing st1 then
           (if is_dark_enough cfg e \<and> any_light_on cfg e
            then publish e (apply_media_dimming cfg e st1)
            else publish e st1)
         else
           (if any_light_on cfg e then publish e (restore_from_media cfg st1)
            else publish e st1))"

subsection \<open>Re-automation paths\<close>

text \<open>\<^verbatim>\<open>_reautomate_from_motion\<close>\<close>

definition reautomate_from_motion :: "config \<Rightarrow> env \<Rightarrow> state \<Rightarrow> state res" where
  "reautomate_from_motion cfg e st =
     (let st1 = st\<lparr>motion_reauto_timer := None, mode := Auto\<rparr>
      in if presence st1 \<and> is_dark_enough cfg e then
           (if automation_allowed cfg e ''on''
            then after
                   (turn_on cfg e ''motion_reauto''
                      (emit (Log ''Re-automated (motion_reauto); motion present -> ensuring ON under auto.'' [])
                         st1))
                   (publish e)
            else Ok (publish e
                       (emit (Log ''Re-automated (motion_reauto); ON is blocked now; doing nothing.'' [])
                          st1)))
         else Ok (publish e
                    (turn_off cfg e ''motion_reauto''
                       (emit (Log ''Re-automated (motion_reauto); no motion -> turning OFF.'' []) st1))))"

text \<open>\<^verbatim>\<open>_reautomate_from_manual_off\<close>\<close>

definition reautomate_from_manual_off :: "config \<Rightarrow> env \<Rightarrow> state \<Rightarrow> state res" where
  "reautomate_from_manual_off cfg e st =
     (let st1 = st\<lparr>mode := Auto\<rparr>
      in if presence st1 \<and> is_dark_enough cfg e then
           (if automation_allowed cfg e ''on''
            then after
                   (turn_on cfg e ''manual_off_timeout''
                      (emit (Log ''Re-automated (manual_off_timeout); presence -> turning ON.'' []) st1))
                   (publish e)
            else Ok (publish e
                       (emit (Log ''Re-automated (manual_off_timeout); ON is blocked; doing nothing.'' [])
                          st1)))
         else Ok (publish e
                    (turn_off cfg e ''manual_off_timeout''
                       (emit (Log ''Re-automated (manual_off_timeout); no presence or not dark -> turning OFF.'' [])
                          st1))))"

text \<open>
  The payload of a \<^verbatim>\<open>call_service\<close> event: its domain, its service and the \<^verbatim>\<open>entity_id\<close> of
  its service data, which is absent, one entity or a list of entities.
\<close>

datatype ent_ref = EntNone | EntOne string | EntMany "string list"

record call_event =
  ev_domain :: "string option"
  ev_service :: "string option"
  ev_entity_id :: ent_ref

definition ent_truthy :: "ent_ref \<Rightarrow> bool" where
  "ent_truthy r = (case r of EntNone \<Rightarrow> False | EntOne s \<Rightarrow> s \<noteq> [] | EntMany xs \<Rightarrow> xs \<noteq> [])"

text \<open>\<^verbatim>\<open>_as_list\<close>\<close>

definition as_list :: "ent_ref \<Rightarrow> string list" where
  "as_list r = (case r of EntNone \<Rightarrow> [] | EntOne s \<Rightarrow> [s] | EntMany xs \<Rightarrow> xs)"

text \<open>\<^verbatim>\<open>_on_button_press\<close>\<close>

definition on_button_press :: "config \<Rightarrow> env \<Rightarrow> call_event \<Rightarrow> state \<Rightarrow> state res" where
  "on_button_press cfg e data st =
     (if ev_domain data \<noteq> Some ''button'' \<or> ev_service data \<noteq> Some ''press'' then Ok st
      else if \<not> ent_truthy (ev_entity_id data) then Ok st
      else if reauto_button cfg \<notin> set (as_list (ev_entity_id data)) then Ok st
      else
        (let st1 = (emit (Log ''Re-automate accepted from button.press for {}'' [AStr (reauto_button cfg)])
                      st)\<lparr>mode := Auto\<rparr>
         in if presence st1 \<and> is_dark_enough cfg e then
              after
                (turn_on cfg e ''event''
                   (emit (Log ''Re-automated (button.press); motion present -> ensuring ON under auto.'' [])
                      st1))
                (publish e)
            else Ok (publish e
                       (turn_off cfg e ''event''
                          (emit (Log ''Re-automated (button.press); no motion or not dark -> turning OFF.'' [])
                             st1)))))"

subsection \<open>Dispatch\<close>

text \<open>
  The host delivers one event at a time. A timer that fires leaves the pending timers and its
  callback runs; a handle that is not pending fires nothing.
\<close>

datatype event =
    Motion string "string option" "string option"
  | LightPower string "string option" "string option"
  | LightAttr string string pyval pyval
  | LuxChanged string "string option" "string option"
  | MediaState string "string option" "string option"
  | ButtonPress call_event
  | TimerFired nat

definition fire :: "config \<Rightarrow> env \<Rightarrow> nat \<Rightarrow> state \<Rightarrow> state res" where
  "fire cfg e n st =
     (case find (\<lambda>t. t_handle t = n) (pending st) of
        None \<Rightarrow> Ok st
      | Some t \<Rightarrow>
          (let st1 = st\<lparr>pending := filter (\<lambda>t. t_handle t \<noteq> n) (pending st)\<rparr>
           in case t_cb t of
                AutoOffElapsed \<Rightarrow> Ok (auto_off_elapsed cfg e st1)
              | ReautomateFromMotion \<Rightarrow> reautomate_from_motion cfg e st1
              | ReautomateFromManualOff \<Rightarrow> reautomate_from_manual_off cfg e st1
              | AlResetTimerCb ent \<Rightarrow> Ok (al_reset_timer_cb cfg ent st1)))"

definition handle_event :: "config \<Rightarrow> env \<Rightarrow> event \<Rightarrow> state \<Rightarrow> state" where
  "handle_event cfg e ev st =
     (case ev of
        Motion ent old new \<Rightarrow> final (on_motion cfg e ent old new st)
      | LightPower ent old new \<Rightarrow> on_light_power cfg e ent old new st
      | LightAttr ent attr old new \<Rightarrow> on_light_attr cfg e ent attr old new st
      | LuxChanged ent old new \<Rightarrow> final (on_lux_changed cfg e ent old new st)
      | MediaState ent old new \<Rightarrow> on_media_state cfg e ent old new st
      | ButtonPress data \<Rightarrow> final (on_button_press cfg e data st)
      | TimerFired n \<Rightarrow> final (fire cfg e n st))"

text \<open>A run: each event is handled in the environment it arrives in.\<close>

fun run :: "config \<Rightarrow> (env \<times> event) list \<Rightarrow> state \<Rightarrow> state" where
  "run cfg [] st = st"
| "run cfg ((e, ev) # rest) st = run cfg rest (handle_event cfg e ev st)"

section \<open>Concrete configurations and observations\<close>

text \<open>A zone with one light and one motion sensor, every option at the default of \<^verbatim>\<open>initialize\<close>.\<close>

definition base_cfg :: config where
  "base_cfg =
     \<lparr> app_name = ''zone'', lights = [''light.a''], motion_entities = [''binary_sensor.m1''],
       lux_sensor = None, lux_threshold = None, only_when_dark = True, delay_off = 60,
       manual_off_reauto_delay = 3600, motion_reauto_seconds = 5, boot_grace = 60,
       echo_window = 3, echo_max_window = 60, media_dim_brightness_pct = None,
       auto_brightness_pct = None, al_switch = None, al_use_targets = True,
       al_take_over_on_manual = True, al_manual_reset_seconds = Some 900,
       al_adapt_brightness = None, al_adapt_color = None, quiet_start = None, quiet_end = None,
       block_windows = [], block_actions = PNone \<rparr>"

text \<open>An environment on a Monday with the given clock, minute of the day and entity states.\<close>

definition env_at :: "real \<Rightarrow> int \<Rightarrow> (string \<Rightarrow> string option) \<Rightarrow> env" where
  "env_at ts m gs =
     \<lparr> now_ts = ts, now_min = m, day = ''mon'', get_state = gs, get_attr = (\<lambda>x y. None) \<rparr>"

text \<open>A block window from 22:00 to 07:00 on every day, with the given \<^verbatim>\<open>actions\<close> value.\<close>

definition night_window :: "pyval \<Rightarrow> window" where
  "night_window a =
     \<lparr> w_start = Some ''22:00'', w_end = Some ''07:00'', w_days = [], w_actions = a \<rparr>"

text \<open>A zone with two motion sensors, and the states of the two sensors.\<close>

definition two_sensor_cfg :: config where
  "two_sensor_cfg = base_cfg\<lparr>motion_entities := [''binary_sensor.m1'', ''binary_sensor.m2'']\<rparr>"

definition sensors :: "string \<Rightarrow> string \<Rightarrow> string \<Rightarrow> string option" where
  "sensors a b x =
     (if x = ''binary_sensor.m1'' then Some a
      else if x = ''binary_sensor.m2'' then Some b
      else None)"

text \<open>What a handler added to the trace, and the light commands among it.\<close>

definition new_effects :: "state \<Rightarrow> state \<Rightarrow> effect list" where
  "new_effects st st' = drop (length (trace st)) (trace st')"

fun is_call :: "effect \<Rightarrow> bool" where
  "is_call (Call s l d) = True"
| "is_call (CallAL s sw ls) = False"
| "is_call (Log m args) = False"
| "is_call (PublishStatus m p mp) = False"
| "is_call (PublishDebug m p mp t) = False"

definition commands :: "state \<Rightarrow> state \<Rightarrow> effect list" where
  "commands st st' = filter is_call (new_effects st st')"



text \<open>The observed transition goes in the direction the expectation names.\<close>

definition echo_matches :: "echo \<Rightarrow> string option \<Rightarrow> string option \<Rightarrow> bool" where
  "echo_matches ex old new =
     ((expected ex = ''on'' \<and> \<not> state_on old \<and> state_on new) \<or>
      (expected ex = ''off'' \<and> state_on old \<and> \<not> state_on new))"

text \<open>The state right after the controller has turned the light on at time 1000.\<close>

definition echo_state :: state where
  "echo_state = final (turn_on base_cfg (env_at 1000 600 (\<lambda>x. None)) ''motion''
                         (initial_state (env_at 0 580 (\<lambda>x. None))))"

text \<open>
  Two dimmable lights at brightness 204 and 153 of 255 (80 and 60 percent), a media dim
  target of 20 percent, and the state after dimming was applied once; with and without an
  automatic brightness.
\<close>

definition media_cfg :: config where
  "media_cfg = base_cfg\<lparr>lights := [''light.a'', ''light.b''], media_dim_brightness_pct := Some 20,
                         auto_brightness_pct := Some 70\<rparr>"

definition media_env :: env where
  "media_env = (env_at 1000 600 (\<lambda>x. Some ''on''))
     \<lparr>get_attr := (\<lambda>ent key. if key = ''brightness''
                      then (if ent = ''light.a'' then Some (PInt 204)
                            else if ent = ''light.b'' then Some (PInt 153) else None)
                      else None)\<rparr>"

definition dimmed_state :: state where
  "dimmed_state = apply_media_dimming media_cfg media_env (initial_state (env_at 0 580 (\<lambda>x. None)))"

definition plain_media_cfg :: config where
  "plain_media_cfg = media_cfg\<lparr>auto_brightness_pct := None\<rparr>"






text \<open>
  Turn-on and turn-off commands, the entity a command addresses, and what it means that a
  handler commanded every light on, or every light off, in the order of the light list.
\<close>

fun is_turn_on :: "effect \<Rightarrow> bool" where
  "is_turn_on (Call s l d) = (s = ''light/turn_on'' \<or> s = ''switch/turn_on'')"
| "is_turn_on (CallAL s sw ls) = False"
| "is_turn_on (Log m args) = False"
| "is_turn_on (PublishStatus m p mp) = False"
| "is_turn_on (PublishDebug m p mp t) = False"

fun is_turn_off :: "effect \<Rightarrow> bool" where
  "is_turn_off (Call s l d) = (s = ''light/turn_off'' \<or> s = ''switch/turn_off'')"
| "is_turn_off (CallAL s sw ls) = False"
| "is_turn_off (Log m args) = False"
| "is_turn_off (PublishStatus m p mp) = False"
| "is_turn_off (PublishDebug m p mp t) = False"

fun call_entity :: "effect \<Rightarrow> string" where
  "call_entity (Call s l d) = l"
| "call_entity (CallAL s sw ls) = sw"
| "call_entity (Log m args) = []"
| "call_entity (PublishStatus m p mp) = []"
| "call_entity (PublishDebug m p mp t) = []"

definition all_on :: "config \<Rightarrow> state \<Rightarrow> state \<Rightarrow> bool" where
  "all_on cfg st st' =
     (list_all is_turn_on (commands st st') \<and> map call_entity (commands st st') = lights cfg)"

definition all_off :: "config \<Rightarrow> state \<Rightarrow> state \<Rightarrow> bool" where
  "all_off cfg st st' =
     (list_all is_turn_off (commands st st') \<and> map call_entity (commands st st') = lights cfg)"

text \<open>A button event that passes the three checks at the head of \<^verbatim>\<open>_on_button_press\<close>.\<close>

definition accepted :: "config \<Rightarrow> call_event \<Rightarrow> bool" where
  "accepted cfg data =
     (ev_domain data = Some ''button'' \<and> ev_service data = Some ''press'' \<and>
      ent_truthy (ev_entity_id data) \<and> reauto_button cfg \<in> set (as_list (ev_entity_id data)))"

text \<open>The call \<^verbatim>\<open>_turn_off\<close> issues for one light.\<close>

definition off_call :: "string \<Rightarrow> effect" where
  "off_call l = Call (if starts_with l ''switch.'' then ''switch/turn_off'' else ''light/turn_off'') l []"

text \<open>
  The night window blocking both actions; and a state in manual mode with the given stored
  presence.
\<close>

definition night_cfg :: config where
  "night_cfg = base_cfg\<lparr>block_windows := [night_window (PBool True)]\<rparr>"

definition manual_state :: "bool \<Rightarrow> state" where
  "manual_state p = (initial_state (env_at 0 580 (\<lambda>x. None)))\<lparr>mode := ManualOn, presence := p\<rparr>"

text \<open>
  The bookkeeping of the three timers whose handle the controller keeps: pending timers have
  distinct handles below the next fresh one, a pending auto-off timer is the one in
  \<^verbatim>\<open>_off_timer\<close>, a pending quick-re-automate timer is the one in \<^verbatim>\<open>_motion_reauto_timer\<close>, and
  a pending manual-hold timer of a light is the one in \<^verbatim>\<open>_al_manual_timers\<close> for that light.
  \<open>tstate\<close> collects the fields this depends on.
\<close>

definition timers_ok :: "state \<Rightarrow> bool" where
  "timers_ok st =
     (distinct (map t_handle (pending st)) \<and>
      (\<forall>t \<in> set (pending st). t_handle t < next_handle st) \<and>
      (\<forall>t \<in> set (pending st). t_cb t = AutoOffElapsed \<longrightarrow> off_timer st = Some (t_handle t)) \<and>
      (\<forall>t \<in> set (pending st). t_cb t = ReautomateFromMotion
           \<longrightarrow> motion_reauto_timer st = Some (t_handle t)) \<and>
      (\<forall>t \<in> set (pending st). \<forall>ent. t_cb t = AlResetTimerCb ent
           \<longrightarrow> al_manual_timers st ent = Some (t_handle t)))"

definition tstate :: "state \<Rightarrow> timer list \<times> nat \<times> nat option \<times> nat option \<times> (string \<rightharpoonup> nat)" where
  "tstate st = (pending st, next_handle st, off_timer st, motion_reauto_timer st, al_manual_timers st)"

section \<open>Verified properties\<close>

lemmas conv_defs =
  parse_hhmm_def py_str_def py_int_of_string_def strip_def is_space_def digit_group_def
  is_digit_def digit_val_def lower_def lower_char_def

lemma parse_2200: "parse_hhmm (Some ''22:00'') = Some 1320"
  by (simp add: conv_defs)

lemma parse_0700: "parse_hhmm (Some ''07:00'') = Some 420"
  by (simp add: conv_defs)

subsection \<open>Block windows\<close>

text \<open>
  Claim C6. \<^verbatim>\<open>_within_window\<close> is false at every time when start and end are equal. For the
  window from 22:00 (minute 1320) to 07:00 (minute 420), which wraps midnight, it is true at
  23:30, 00:00 and 06:59 and false at 07:00 and 21:59.
\<close>

theorem within_window_wraps:
  "(\<forall>s now. \<not> within_window (Some s) (Some s) now) \<and>
   parse_hhmm (Some ''22:00'') = Some 1320 \<and> parse_hhmm (Some ''07:00'') = Some 420 \<and>
   within_window (Some 1320) (Some 420) (23 * 60 + 30) \<and>
   within_window (Some 1320) (Some 420) 0 \<and>
   within_window (Some 1320) (Some 420) (6 * 60 + 59) \<and>
   \<not> within_window (Some 1320) (Some 420) (7 * 60) \<and>
   \<not> within_window (Some 1320) (Some 420) (21 * 60 + 59)"
  by (simp add: within_window_def parse_2200 parse_0700)

lemma blocked_now_night_on:
  "blocked_now (base_cfg\<lparr>block_windows := [night_window (PStr ''on'')]\<rparr>)
     (env_at 1000 1410 (\<lambda>x. None)) = Some ''on 22:00-07:00''"
  by (simp add: blocked_now_def base_cfg_def env_at_def night_window_def parse_2200 parse_0700
      within_window_def norm_actions_def block_actions_default_def py_str_def strip_def
      is_space_def lower_def lower_char_def)

lemma blocked_now_night_off:
  "blocked_now (base_cfg\<lparr>block_windows := [night_window (PStr ''off'')]\<rparr>)
     (env_at 1000 1410 (\<lambda>x. None)) = Some ''off 22:00-07:00''"
  by (simp add: blocked_now_def base_cfg_def env_at_def night_window_def parse_2200 parse_0700
      within_window_def norm_actions_def block_actions_default_def py_str_def strip_def
      is_space_def lower_def lower_char_def)

text \<open>
  Claim C1 asks that a matching window whose action set is \<^verbatim>\<open>on\<close> makes the check for \<^verbatim>\<open>on\<close>
  false, and likewise for \<^verbatim>\<open>off\<close>. At 23:30 with the single window 22:00 to 07:00 the reason
  string is \<^verbatim>\<open>on 22:00-07:00\<close> (or \<^verbatim>\<open>off 22:00-07:00\<close>); \<^verbatim>\<open>_automation_allowed\<close> looks for the
  action after a space, the string has it at its start, and the check answers true: the
  window blocks nothing.
\<close>

theorem single_action_window_blocks_nothing:
  "blocked_now (base_cfg\<lparr>block_windows := [night_window (PStr ''on'')]\<rparr>)
     (env_at 1000 1410 (\<lambda>x. None)) = Some ''on 22:00-07:00'' \<and>
   automation_allowed (base_cfg\<lparr>block_windows := [night_window (PStr ''on'')]\<rparr>)
     (env_at 1000 1410 (\<lambda>x. None)) ''on'' = True \<and>
   blocked_now (base_cfg\<lparr>block_windows := [night_window (PStr ''off'')]\<rparr>)
     (env_at 1000 1410 (\<lambda>x. None)) = Some ''off 22:00-07:00'' \<and>
   automation_allowed (base_cfg\<lparr>block_windows := [night_window (PStr ''off'')]\<rparr>)
     (env_at 1000 1410 (\<lambda>x. None)) ''off'' = True"
  by (simp add: automation_allowed_def blocked_now_night_on blocked_now_night_off)

subsection \<open>Presence\<close>

text \<open>
  Claim C3 asks that after a presence event the stored presence is the OR of all sensors.
  \<^verbatim>\<open>_on_motion\<close> stores what the event's own sensor reports. With two sensors: the first
  turns on, the second turns on, the second turns off while the first is still on. After the
  third event the stored presence is false, while \<^verbatim>\<open>_any_motion_on\<close>, the OR over the
  sensors that the same handler uses to decide about the auto-off timer, is true.
\<close>

theorem presence_is_last_event_not_or:
  "presence (run two_sensor_cfg
     [(env_at 1000 600 (sensors ''on'' ''off''),
       Motion ''binary_sensor.m1'' (Some ''off'') (Some ''on'')),
      (env_at 1010 600 (sensors ''on'' ''on''),
       Motion ''binary_sensor.m2'' (Some ''off'') (Some ''on'')),
      (env_at 1020 600 (sensors ''on'' ''off''),
       Motion ''binary_sensor.m2'' (Some ''on'') (Some ''off''))]
     (initial_state (env_at 0 580 (sensors ''off'' ''off'')))) = False \<and>
   any_motion_on two_sensor_cfg (env_at 1020 600 (sensors ''on'' ''off'')) = True"
  by code_simp

subsection \<open>Timers\<close>

text \<open>
  Claim C4 asks that at most one timer of each purpose is pending, the manual-off
  re-automation timer included. \<^verbatim>\<open>_on_light_power\<close> schedules that timer without keeping its
  handle and never cancels it. A light switched off, on and off again by hand, each time
  after the boot grace and with no echo expected, leaves two such timers pending (with the
  manual-hold timer of the light between them).
\<close>

theorem two_manual_off_timers_pending:
  "map t_cb (pending (run base_cfg
     [(env_at 1000 600 (\<lambda>x. None), LightPower ''light.a'' (Some ''on'') (Some ''off'')),
      (env_at 2000 620 (\<lambda>x. None), LightPower ''light.a'' (Some ''off'') (Some ''on'')),
      (env_at 3000 640 (\<lambda>x. None), LightPower ''light.a'' (Some ''on'') (Some ''off''))]
     (initial_state (env_at 0 580 (\<lambda>x. None)))))
   = [ReautomateFromManualOff, AlResetTimerCb ''light.a'', ReautomateFromManualOff]"
  by code_simp

subsection \<open>Malformed readings\<close>




lemma blocked_now_night_both:
  "blocked_now (base_cfg\<lparr>block_windows := [night_window (PBool True)]\<rparr>)
     (env_at 1000 1410 (\<lambda>x. None)) = Some ''on_off 22:00-07:00''"
  by (simp add: blocked_now_def base_cfg_def env_at_def night_window_def parse_2200 parse_0700
      within_window_def norm_actions_def block_actions_default_def py_str_def)



subsection \<open>Echo suppression\<close>

lemma mode_emit [simp]: "mode (emit x st) = mode st"
  by (simp add: emit_def)

lemma mode_publish [simp]: "mode (publish e st) = mode st"
  by (simp add: publish_def)

lemma mode_cancel [simp]: "mode (cancel_timer_safe h st) = mode st"
  by (simp add: cancel_timer_safe_def split: option.splits)

lemma mode_al_set_manual_control [simp]: "mode (al_set_manual_control cfg ls st) = mode st"
  by (simp add: al_set_manual_control_def)

lemma mode_al_schedule_reset_for [simp]: "mode (al_schedule_reset_for cfg e ent st) = mode st"
  by (simp add: al_schedule_reset_for_def run_in_def Let_def split: option.splits)

lemma mode_ack_echo [simp]: "mode (ack_echo ent ex st) = mode st"
  by (simp add: ack_echo_def)

lemma ignore_match:
  assumes "expected_echo st entity = Some ex" "now_ts e \<le> until ex" "echo_matches ex old new"
  shows "ignore_if_expected_echo e entity old new st = (True, ack_echo entity ex st)"
  using assms by (auto simp: ignore_if_expected_echo_def echo_matches_def)

text \<open>
  Claim C5. A light-power report for which an expectation exists, is not expired and matches
  the direction never changes the mode: within the boot grace the handler returns at once,
  afterwards \<^verbatim>\<open>_ignore_if_expected_echo\<close> answers true and the handler returns. That
  function sets the \<^verbatim>\<open>logged\<close> flag and logs exactly when the flag was not yet set, and the
  expectation stays; every later matching report before expiry is answered true again and
  changes nothing, so nothing more is logged.
\<close>

theorem echo_suppression:
  assumes ex: "expected_echo st entity = Some ex"
      and live: "now_ts e \<le> until ex"
      and dir: "echo_matches ex old new"
  shows "mode (on_light_power cfg e entity old new st) = mode st \<and>
     on_light_power cfg e entity old new st
       = (if now_ts e - started_ts st < boot_grace cfg then st
          else snd (ignore_if_expected_echo e entity old new st)) \<and>
     fst (ignore_if_expected_echo e entity old new st) \<and>
     mode (snd (ignore_if_expected_echo e entity old new st)) = mode st \<and>
     expected_echo (snd (ignore_if_expected_echo e entity old new st)) entity
       = Some (ex\<lparr>logged := True\<rparr>) \<and>
     new_effects st (snd (ignore_if_expected_echo e entity old new st))
       = (if logged ex then [] else [Log ''Ignoring echo from our own service call.'' []]) \<and>
     (\<forall>e2 old2 new2. now_ts e2 \<le> until ex \<and> echo_matches ex old2 new2 \<longrightarrow>
        ignore_if_expected_echo e2 entity old2 new2 (snd (ignore_if_expected_echo e entity old new st))
          = (True, snd (ignore_if_expected_echo e entity old new st)))"
proof -
  let ?st' = "ack_echo entity ex st"
  have ig: "ignore_if_expected_echo e entity old new st = (True, ?st')"
    using ignore_match [OF ex live dir] .
  have ex': "expected_echo ?st' entity = Some (ex\<lparr>logged := True\<rparr>)"
    using ex by (cases "logged ex") (auto simp: ack_echo_def emit_def)
  have tr: "new_effects st ?st'
       = (if logged ex then [] else [Log ''Ignoring echo from our own service call.'' []])"
    by (simp add: new_effects_def ack_echo_def emit_def)
  have again: "ignore_if_expected_echo e2 entity old2 new2 ?st' = (True, ?st')"
    if "now_ts e2 \<le> until ex \<and> echo_matches ex old2 new2" for e2 old2 new2
  proof -
    have m: "echo_matches (ex\<lparr>logged := True\<rparr>) old2 new2"
      using that by (simp add: echo_matches_def)
    have "ignore_if_expected_echo e2 entity old2 new2 ?st'
            = (True, ack_echo entity (ex\<lparr>logged := True\<rparr>) ?st')"
      using ignore_match [OF ex' _ m] that by simp
    then show ?thesis by (simp add: ack_echo_def)
  qed
  have h: "on_light_power cfg e entity old new st
       = (if now_ts e - started_ts st < boot_grace cfg then st else ?st')"
    by (simp add: on_light_power_def ig)
  show ?thesis
    using ig ex' tr again h by simp
qed

lemma echo_state_expected:
  "expected_echo echo_state ''light.a'' = Some \<lparr>until = 1003, expected = ''on'', logged = False\<rparr>"
  by (simp add: echo_state_def turn_on_def final_def after_def mark_expected_echo_def base_cfg_def
      env_at_def initial_state_def str_truthy_def emit_def bp_data_def)

text \<open>
  The light was turned on at 1000 with an echo window of 3; its report off to on arrives at
  1001, after the boot grace of 60, and is logged. A second report, from unavailable to on
  at 1002, is ignored again and changes nothing.
\<close>

theorem echo_suppression_witness:
  "expected_echo echo_state ''light.a'' = Some \<lparr>until = 1003, expected = ''on'', logged = False\<rparr> \<and>
   echo_matches \<lparr>until = 1003, expected = ''on'', logged = False\<rparr> (Some ''off'') (Some ''on'') \<and>
   mode (on_light_power base_cfg (env_at 1001 600 (\<lambda>x. None)) ''light.a'' (Some ''off'') (Some ''on'')
           echo_state) = mode echo_state \<and>
   new_effects echo_state
     (snd (ignore_if_expected_echo (env_at 1001 600 (\<lambda>x. None)) ''light.a'' (Some ''off'') (Some ''on'')
             echo_state))
     = [Log ''Ignoring echo from our own service call.'' []] \<and>
   ignore_if_expected_echo (env_at 1002 600 (\<lambda>x. None)) ''light.a'' (Some ''unavailable'') (Some ''on'')
     (snd (ignore_if_expected_echo (env_at 1001 600 (\<lambda>x. None)) ''light.a'' (Some ''off'') (Some ''on'')
             echo_state))
     = (True, snd (ignore_if_expected_echo (env_at 1001 600 (\<lambda>x. None)) ''light.a'' (Some ''off'')
                     (Some ''on'') echo_state))"
proof -
  have m: "echo_matches \<lparr>until = 1003, expected = ''on'', logged = False\<rparr> (Some ''off'') (Some ''on'')"
    by (simp add: echo_matches_def state_on_def lower_state_def lower_def lower_char_def)
  have m2: "echo_matches \<lparr>until = 1003, expected = ''on'', logged = False\<rparr> (Some ''unavailable'')
              (Some ''on'')"
    by (simp add: echo_matches_def state_on_def lower_state_def lower_def lower_char_def)
  have l: "now_ts (env_at 1001 600 (\<lambda>x. None)) \<le> until \<lparr>until = 1003, expected = ''on'', logged = False\<rparr>"
    by (simp add: env_at_def)
  have l2: "now_ts (env_at 1002 600 (\<lambda>x. None)) \<le> until \<lparr>until = 1003, expected = ''on'', logged = False\<rparr>"
    by (simp add: env_at_def)
  show ?thesis
    using echo_suppression [OF echo_state_expected l m, of base_cfg] echo_state_expected m m2 l2
    by simp
qed

subsection \<open>Manual adjustments\<close>



subsection \<open>Media dimming\<close>

lemma before_emit [simp]: "before_media_brightness_pct (emit x st) = before_media_brightness_pct st"
  by (simp add: emit_def)

lemma dim_light_keeps:
  "map_of (before_media_brightness_pct st) k \<noteq> None \<Longrightarrow>
   map_of (before_media_brightness_pct (media_dim_light e t l st)) k \<noteq> None"
  by (auto simp: media_dim_light_def Let_def)

lemma dim_light_captures:
  "starts_with l ''light.'' \<Longrightarrow>
   map_of (before_media_brightness_pct (media_dim_light e t l st)) l \<noteq> None"
  by (auto simp: media_dim_light_def Let_def map_add_def)

lemma fold_dim_keeps:
  "map_of (before_media_brightness_pct st) k \<noteq> None \<Longrightarrow>
   map_of (before_media_brightness_pct (fold (media_dim_light e t) ls st)) k \<noteq> None"
proof (induction ls arbitrary: st)
  case Nil
  then show ?case by simp
next
  case (Cons a ls)
  from Cons.prems have "map_of (before_media_brightness_pct (media_dim_light e t a st)) k \<noteq> None"
    by (rule dim_light_keeps)
  then show ?case by (simp add: Cons.IH)
qed

lemma fold_dim_captures:
  "l \<in> set ls \<Longrightarrow> starts_with l ''light.'' \<Longrightarrow>
   map_of (before_media_brightness_pct (fold (media_dim_light e t) ls st)) l \<noteq> None"
proof (induction ls arbitrary: st)
  case Nil
  then show ?case by simp
next
  case (Cons a ls)
  show ?case
  proof (cases "l = a")
    case True
    with Cons.prems show ?thesis
      by (simp add: fold_dim_keeps dim_light_captures)
  next
    case False
    with Cons show ?thesis by simp
  qed
qed

lemma fold_dim_unchanged:
  "(\<And>l. l \<in> set ls \<Longrightarrow> starts_with l ''light.'' \<Longrightarrow>
      map_of (before_media_brightness_pct st) l \<noteq> None) \<Longrightarrow>
   before_media_brightness_pct (fold (media_dim_light e t) ls st) = before_media_brightness_pct st"
proof (induction ls arbitrary: st)
  case Nil
  then show ?case by simp
next
  case (Cons a ls)
  have one: "before_media_brightness_pct (media_dim_light e t a st) = before_media_brightness_pct st"
    using Cons.prems [of a] by (auto simp: media_dim_light_def Let_def)
  have "before_media_brightness_pct (fold (media_dim_light e t) ls (media_dim_light e t a st))
          = before_media_brightness_pct (media_dim_light e t a st)"
    by (rule Cons.IH) (simp add: one Cons.prems)
  with one show ?case by simp
qed

lemma apply_twice_before:
  "before_media_brightness_pct (apply_media_dimming cfg e2 (apply_media_dimming cfg e1 st))
     = before_media_brightness_pct (apply_media_dimming cfg e1 st)"
proof (cases "media_dim_brightness_pct cfg")
  case None
  then show ?thesis by (simp add: apply_media_dimming_def)
next
  case (Some t)
  let ?s1 = "fold (media_dim_light e1 t) (lights cfg) st"
  have cov: "map_of (before_media_brightness_pct ?s1) l \<noteq> None"
    if "l \<in> set (lights cfg)" "starts_with l ''light.''" for l
    using that by (rule fold_dim_captures)
  have a1: "before_media_brightness_pct (apply_media_dimming cfg e1 st) = before_media_brightness_pct ?s1"
    by (simp add: apply_media_dimming_def Some Let_def)
  have "before_media_brightness_pct (fold (media_dim_light e2 t) (lights cfg) (apply_media_dimming cfg e1 st))
          = before_media_brightness_pct (apply_media_dimming cfg e1 st)"
    by (rule fold_dim_unchanged) (simp add: a1 cov)
  then show ?thesis
    by (simp add: apply_media_dimming_def [of cfg e2] Some Let_def)
qed

lemma before_fold_emit_if:
  "before_media_brightness_pct (fold (\<lambda>l s. if P l then emit (f l) s else s) ls st)
     = before_media_brightness_pct st"
  by (induction ls arbitrary: st) simp_all

lemma trace_fold_emit_if:
  "trace (fold (\<lambda>l s. if P l then emit (f l) s else s) ls st)
     = trace st @ map f (filter P ls)"
  by (induction ls arbitrary: st) (simp_all add: emit_def)

lemma restore_before_empty: "before_media_brightness_pct (restore_from_media cfg st) = []"
  by (simp add: restore_from_media_def before_fold_emit_if split: option.splits)

lemma restore_empty_trace:
  "before_media_brightness_pct st = [] \<Longrightarrow>
   trace (restore_from_media cfg st)
     = trace st @
       (case auto_brightness_pct cfg of
          None \<Rightarrow> []
        | Some a \<Rightarrow>
            map (\<lambda>l. Call ''light/turn_on'' l [(''brightness_pct'', a)])
              (filter (\<lambda>l. starts_with l ''light.'') (lights cfg))
            @ [Log ''Media stopped -> setting lights to auto brightness.'' []])"
  by (simp add: restore_from_media_def trace_fold_emit_if emit_def split: option.splits)

lemma filter_is_call_map_Call: "filter is_call (map (\<lambda>l. Call s l (d l)) ls) = map (\<lambda>l. Call s l (d l)) ls"
  by (induction ls) simp_all

text \<open>
  Claim C8, amended. Applying media dimming a second time leaves the captured brightness
  values as the first application left them. After a restoration the captured map is empty,
  and it is empty after a second one; the second restoration restores no captured value. It
  is a no-op when no automatic brightness is configured; otherwise it commands every
  \<^verbatim>\<open>light.\<close> entity to the automatic brightness.
\<close>

theorem media_dim_capture_once:
  "before_media_brightness_pct (apply_media_dimming cfg e2 (apply_media_dimming cfg e1 st))
     = before_media_brightness_pct (apply_media_dimming cfg e1 st) \<and>
   before_media_brightness_pct (restore_from_media cfg st) = [] \<and>
   before_media_brightness_pct (restore_from_media cfg (restore_from_media cfg st)) = [] \<and>
   commands (restore_from_media cfg st) (restore_from_media cfg (restore_from_media cfg st))
     = (case auto_brightness_pct cfg of
          None \<Rightarrow> []
        | Some a \<Rightarrow>
            map (\<lambda>l. Call ''light/turn_on'' l [(''brightness_pct'', a)])
              (filter (\<lambda>l. starts_with l ''light.'') (lights cfg))) \<and>
   (auto_brightness_pct cfg = None \<longrightarrow>
      restore_from_media cfg (restore_from_media cfg st) = restore_from_media cfg st)"
proof -
  let ?r = "restore_from_media cfg st"
  have e: "before_media_brightness_pct ?r = []" by (rule restore_before_empty)
  have c: "commands ?r (restore_from_media cfg ?r)
     = (case auto_brightness_pct cfg of
          None \<Rightarrow> []
        | Some a \<Rightarrow>
            map (\<lambda>l. Call ''light/turn_on'' l [(''brightness_pct'', a)])
              (filter (\<lambda>l. starts_with l ''light.'') (lights cfg)))"
    by (simp add: commands_def new_effects_def restore_empty_trace [OF e] filter_is_call_map_Call
        split: option.splits)
  have n: "auto_brightness_pct cfg = None \<longrightarrow> restore_from_media cfg ?r = ?r"
    using e by (simp add: restore_from_media_def [of cfg ?r])
  show ?thesis
    using apply_twice_before restore_before_empty c n by simp
qed

text \<open>
  Claim C8 as stated fails: with an automatic brightness of 70 configured, the second of two
  restorations in a row is not a no-op. It finds the captured map empty and commands both
  lights to 70 percent.
\<close>

theorem second_restore_commands_counterexample:
  "before_media_brightness_pct dimmed_state = [(''light.a'', Some 80), (''light.b'', Some 60)] \<and>
   commands (restore_from_media media_cfg dimmed_state)
     (restore_from_media media_cfg (restore_from_media media_cfg dimmed_state))
   = [Call ''light/turn_on'' ''light.a'' [(''brightness_pct'', 70)],
      Call ''light/turn_on'' ''light.b'' [(''brightness_pct'', 70)]] \<and>
   restore_from_media media_cfg (restore_from_media media_cfg dimmed_state)
     \<noteq> restore_from_media media_cfg dimmed_state"
proof -
  have a: "before_media_brightness_pct dimmed_state = [(''light.a'', Some 80), (''light.b'', Some 60)]"
    by code_simp
  have b: "commands (restore_from_media media_cfg dimmed_state)
     (restore_from_media media_cfg (restore_from_media media_cfg dimmed_state))
   = [Call ''light/turn_on'' ''light.a'' [(''brightness_pct'', 70)],
      Call ''light/turn_on'' ''light.b'' [(''brightness_pct'', 70)]]"
    by code_simp
  have "commands (restore_from_media media_cfg dimmed_state) (restore_from_media media_cfg dimmed_state) = []"
    by (simp add: commands_def new_effects_def)
  with b have "restore_from_media media_cfg (restore_from_media media_cfg dimmed_state)
     \<noteq> restore_from_media media_cfg dimmed_state"
    by auto
  with a b show ?thesis by simp
qed

text \<open>Without an automatic brightness the second restoration changes nothing.\<close>

theorem media_dim_capture_once_witness:
  "auto_brightness_pct plain_media_cfg = None \<and>
   restore_from_media plain_media_cfg (restore_from_media plain_media_cfg dimmed_state)
     = restore_from_media plain_media_cfg dimmed_state \<and>
   commands dimmed_state (restore_from_media plain_media_cfg dimmed_state)
     = [Call ''light/turn_on'' ''light.a'' [(''brightness_pct'', 80)],
        Call ''light/turn_on'' ''light.b'' [(''brightness_pct'', 60)]]"
proof -
  have a: "auto_brightness_pct plain_media_cfg = None"
    by (simp add: plain_media_cfg_def)
  have b: "commands dimmed_state (restore_from_media plain_media_cfg dimmed_state)
     = [Call ''light/turn_on'' ''light.a'' [(''brightness_pct'', 80)],
        Call ''light/turn_on'' ''light.b'' [(''brightness_pct'', 60)]]"
    by code_simp
  show ?thesis
    using media_dim_capture_once [of plain_media_cfg media_env media_env dimmed_state] a b
    by simp
qed

subsection \<open>Adaptation tolerance\<close>











subsection \<open>Re-automation\<close>

lemma trace_emit [simp]: "trace (emit x st) = trace st @ [x]"
  by (simp add: emit_def)

lemma trace_publish [simp]:
  "trace (publish e st) = trace st @ [PublishStatus (mode st) (presence st) (media_playing st),
                                      PublishDebug (mode st) (presence st) (media_playing st) (now_ts e)]"
  by (simp add: publish_def)

lemma mark_fields [simp]:
  "trace (mark_expected_echo cfg e s st) = trace st"
  "mode (mark_expected_echo cfg e s st) = mode st"
  "presence (mark_expected_echo cfg e s st) = presence st"
  "media_playing (mark_expected_echo cfg e s st) = media_playing st"
proof -
  have "trace (fold f ls st) = trace st \<and> mode (fold f ls st) = mode st \<and>
        presence (fold f ls st) = presence st \<and> media_playing (fold f ls st) = media_playing st"
    if "\<And>l s. trace (f l s) = trace s \<and> mode (f l s) = mode s \<and> presence (f l s) = presence s
               \<and> media_playing (f l s) = media_playing s"
    for f :: "string \<Rightarrow> state \<Rightarrow> state" and ls
    using that by (induction ls arbitrary: st) auto
  note g = this
  show "trace (mark_expected_echo cfg e s st) = trace st"
    "mode (mark_expected_echo cfg e s st) = mode st"
    "presence (mark_expected_echo cfg e s st) = presence st"
    "media_playing (mark_expected_echo cfg e s st) = media_playing st"
    unfolding mark_expected_echo_def by (simp_all add: g)
qed

lemma fold_emit_trace: "trace (fold (\<lambda>l. emit (f l)) ls st) = trace st @ map f ls"
  by (induction ls arbitrary: st) simp_all

lemma fold_emit_mode: "mode (fold (\<lambda>l. emit (f l)) ls st) = mode st"
  by (induction ls arbitrary: st) simp_all

lemma trace_turn_off:
  "trace (turn_off cfg e r st) = trace st @ map off_call (lights cfg) @ [Log ''Turn OFF ({}).'' [AStr r]]"
proof -
  have "(\<lambda>l. emit (Call (if starts_with l ''switch.'' then ''switch/turn_off''
                               else ''light/turn_off'') l [])) = (\<lambda>l. emit (off_call l))"
    by (simp add: off_call_def)
  then show ?thesis
    by (simp add: turn_off_def fold_emit_trace)
qed

lemma mode_turn_off [simp]: "mode (turn_off cfg e r st) = mode st"
  by (simp add: turn_off_def fold_emit_mode)

lemma off_calls_props:
  "filter is_call (map off_call ls) = map off_call ls"
  "list_all is_turn_off (map off_call ls)"
  "map call_entity (map off_call ls) = ls"
  by (induction ls) (simp_all add: off_call_def)

lemma turn_on_lights_trace:
  "\<exists>cs. trace (final (turn_on_lights bp ct ac ls st)) = trace st @ cs \<and>
        filter is_call cs = cs \<and> list_all is_turn_on cs \<and>
        mode (final (turn_on_lights bp ct ac ls st)) = mode st \<and>
        (\<forall>s. turn_on_lights bp ct ac ls st = Ok s \<longrightarrow> map call_entity cs = ls)"
proof (induction ls arbitrary: st)
  case Nil
  then show ?case by (simp add: final_def)
next
  case (Cons l ls)
  show ?case
  proof (cases "starts_with l ''switch.''")
    case True
    from Cons.IH [of "emit (Call ''switch/turn_on'' l []) st"]
    obtain cs where cs: "trace (final (turn_on_lights bp ct ac ls (emit (Call ''switch/turn_on'' l []) st)))
          = trace (emit (Call ''switch/turn_on'' l []) st) @ cs"
      "filter is_call cs = cs" "list_all is_turn_on cs"
      "mode (final (turn_on_lights bp ct ac ls (emit (Call ''switch/turn_on'' l []) st))) = mode st"
      "\<forall>s. turn_on_lights bp ct ac ls (emit (Call ''switch/turn_on'' l []) st) = Ok s \<longrightarrow> map call_entity cs = ls"
      by (auto simp: emit_def)
    with True show ?thesis
      by (intro exI [of _ "Call ''switch/turn_on'' l [] # cs"]) simp
  next
    case False
    note ns = this
    show ?thesis
    proof (cases "ct \<noteq> PNone \<and> ac")
      case True
      show ?thesis
      proof (cases "py_int ct")
        case None
        with ns True show ?thesis by (simp add: final_def)
      next
        case (Some k)
        let ?c = "Call ''light/turn_on'' l (bp_data bp @ [(''color_temp_kelvin'', k)])"
        from Cons.IH [of "emit ?c st"]
        obtain cs where cs: "trace (final (turn_on_lights bp ct ac ls (emit ?c st))) = trace (emit ?c st) @ cs"
          "filter is_call cs = cs" "list_all is_turn_on cs"
          "mode (final (turn_on_lights bp ct ac ls (emit ?c st))) = mode st"
          "\<forall>s. turn_on_lights bp ct ac ls (emit ?c st) = Ok s \<longrightarrow> map call_entity cs = ls"
          by (auto simp: emit_def)
        with ns True Some show ?thesis
          by (intro exI [of _ "?c # cs"]) simp
      qed
    next
      case False
      let ?c = "Call ''light/turn_on'' l (bp_data bp)"
      from Cons.IH [of "emit ?c st"]
      obtain cs where cs: "trace (final (turn_on_lights bp ct ac ls (emit ?c st))) = trace (emit ?c st) @ cs"
        "filter is_call cs = cs" "list_all is_turn_on cs"
        "mode (final (turn_on_lights bp ct ac ls (emit ?c st))) = mode st"
        "\<forall>s. turn_on_lights bp ct ac ls (emit ?c st) = Ok s \<longrightarrow> map call_entity cs = ls"
        by (auto simp: emit_def)
      with ns False show ?thesis
        by (intro exI [of _ "?c # cs"]) auto
    qed
  qed
qed


lemma commands_ext: "trace st' = trace st @ xs \<Longrightarrow> commands st st' = filter is_call xs"
  by (simp add: commands_def new_effects_def)

lemma turn_on_ext:
  "\<exists>xs. trace (final (turn_on cfg e r st)) = trace st @ xs \<and>
        list_all is_turn_on (filter is_call xs) \<and>
        mode (final (turn_on cfg e r st)) = mode st \<and>
        (\<forall>s. turn_on cfg e r st = Ok s \<longrightarrow> map call_entity (filter is_call xs) = lights cfg)"
proof -
  let ?st1 = "mark_expected_echo cfg e ''on'' st"
  obtain bri_target ct_kelvin adapt_b adapt_c where
    tg: "(if str_truthy (al_switch cfg) \<and> al_use_targets cfg
          then al_current_targets cfg e else (PNone, PNone, True, True))
         = (bri_target, ct_kelvin, adapt_b, adapt_c)"
    by (cases "if str_truthy (al_switch cfg) \<and> al_use_targets cfg
          then al_current_targets cfg e else (PNone, PNone, True, True)") auto
  let ?bp0 = "if media_playing st \<and> media_dim_brightness_pct cfg \<noteq> None
              then media_dim_brightness_pct cfg else auto_brightness_pct cfg"
  let ?sel = "if ?bp0 = None \<and> bri_target \<noteq> PNone \<and> adapt_b
              then map_option Some (py_int bri_target) else Some ?bp0"
  have unf: "turn_on cfg e r st =
       (case ?sel of None \<Rightarrow> Exn ?st1
        | Some bp \<Rightarrow> after (turn_on_lights bp ct_kelvin adapt_c (lights cfg) ?st1)
                       (emit (Log ''Turn ON ({}).'' [AStr r])))"
    by (simp add: turn_on_def Let_def tg)
  show ?thesis
  proof (cases ?sel)
    case None
    with unf have "turn_on cfg e r st = Exn ?st1" by simp
    then show ?thesis by (simp add: final_def)
  next
    case (Some bp)
    with unf have t: "turn_on cfg e r st
        = after (turn_on_lights bp ct_kelvin adapt_c (lights cfg) ?st1)
            (emit (Log ''Turn ON ({}).'' [AStr r]))"
      by simp
    from turn_on_lights_trace [of bp ct_kelvin adapt_c "lights cfg" ?st1]
    obtain cs where cs:
      "trace (final (turn_on_lights bp ct_kelvin adapt_c (lights cfg) ?st1)) = trace st @ cs"
      "filter is_call cs = cs" "list_all is_turn_on cs"
      "mode (final (turn_on_lights bp ct_kelvin adapt_c (lights cfg) ?st1)) = mode st"
      "\<forall>s. turn_on_lights bp ct_kelvin adapt_c (lights cfg) ?st1 = Ok s
           \<longrightarrow> map call_entity cs = lights cfg"
      by auto
    show ?thesis
    proof (cases "turn_on_lights bp ct_kelvin adapt_c (lights cfg) ?st1")
      case (Ok s)
      with cs t show ?thesis
        by (intro exI [of _ "cs @ [Log ''Turn ON ({}).'' [AStr r]]"])
           (simp add: after_def final_def)
    next
      case (Exn s)
      with cs t show ?thesis
        by (intro exI [of _ cs]) (simp add: after_def final_def)
    qed
  qed
qed

lemma on_branch:
  assumes tr: "trace st1 = trace st @ pre" and np: "filter is_call pre = []" and m: "mode st1 = Auto"
      and R_def: "R = after (turn_on cfg e r st1) (publish e)"
  shows "mode (final R) = Auto \<and> list_all is_turn_on (commands st (final R)) \<and>
         (\<forall>s. R = Ok s \<longrightarrow> all_on cfg st s)"
proof -
  from turn_on_ext [of cfg e r st1]
  obtain xs where xs: "trace (final (turn_on cfg e r st1)) = trace st1 @ xs"
    "list_all is_turn_on (filter is_call xs)"
    "mode (final (turn_on cfg e r st1)) = mode st1"
    "\<forall>s. turn_on cfg e r st1 = Ok s \<longrightarrow> map call_entity (filter is_call xs) = lights cfg"
    by auto
  show ?thesis
  proof (cases "turn_on cfg e r st1")
    case (Ok s)
    with xs have s: "trace s = trace st1 @ xs" "mode s = mode st1"
      "map call_entity (filter is_call xs) = lights cfg"
      by (simp_all add: final_def)
    have R: "R = Ok (publish e s)" by (simp add: R_def Ok after_def)
    have "trace (publish e s) = trace st @ (pre @ xs @
              [PublishStatus (mode s) (presence s) (media_playing s),
               PublishDebug (mode s) (presence s) (media_playing s) (now_ts e)])"
      using s tr by simp
    from commands_ext [OF this] have "commands st (publish e s) = filter is_call xs"
      using np by simp
    with R s xs m show ?thesis
      by (simp add: final_def all_on_def)
  next
    case (Exn s)
    with xs have s: "trace s = trace st1 @ xs" "mode s = mode st1"
      by (simp_all add: final_def)
    have R: "R = Exn s" by (simp add: R_def Exn after_def)
    have "trace s = trace st @ (pre @ xs)" using s tr by simp
    from commands_ext [OF this] have "commands st s = filter is_call xs"
      using np by simp
    with R s xs m show ?thesis
      by (simp add: final_def)
  qed
qed

lemma off_branch:
  assumes tr: "trace st1 = trace st @ pre" and np: "filter is_call pre = []" and m: "mode st1 = Auto"
  shows "mode (publish e (turn_off cfg e r st1)) = Auto \<and>
         all_off cfg st (publish e (turn_off cfg e r st1))"
proof -
  have "trace (publish e (turn_off cfg e r st1)) = trace st @ (pre @ map off_call (lights cfg) @
          [Log ''Turn OFF ({}).'' [AStr r],
           PublishStatus (mode (turn_off cfg e r st1)) (presence (turn_off cfg e r st1))
             (media_playing (turn_off cfg e r st1)),
           PublishDebug (mode (turn_off cfg e r st1)) (presence (turn_off cfg e r st1))
             (media_playing (turn_off cfg e r st1)) (now_ts e)])"
    by (simp add: trace_turn_off tr)
  from commands_ext [OF this]
  have "commands st (publish e (turn_off cfg e r st1)) = map off_call (lights cfg)"
    using np by (simp add: off_calls_props)
  then show ?thesis
    using m off_calls_props [of "lights cfg"] by (simp add: all_off_def del: map_map)
qed

lemma none_branch:
  assumes tr: "trace st1 = trace st @ pre" and np: "filter is_call pre = []"
  shows "commands st (publish e st1) = []"
proof -
  have "trace (publish e st1) = trace st @ (pre @
          [PublishStatus (mode st1) (presence st1) (media_playing st1),
           PublishDebug (mode st1) (presence st1) (media_playing st1) (now_ts e)])"
    by (simp add: tr)
  from commands_ext [OF this] show ?thesis using np by simp
qed

lemma off_not_on: "list_all is_turn_off cs \<Longrightarrow> c \<in> set cs \<Longrightarrow> \<not> is_turn_on c"
proof (induction cs)
  case Nil
  then show ?case by simp
next
  case (Cons a cs)
  have "is_turn_off a \<Longrightarrow> \<not> is_turn_on a" by (cases a) auto
  with Cons show ?case by auto
qed


lemma path_facts:
  assumes tr: "trace st1 = trace st @ pre" and np: "filter is_call pre = []"
      and m: "mode st1 = Auto" and ee: "expected_echo st1 = expected_echo st"
      and R: "R = (if P \<and> D
                   then (if G then after (turn_on cfg e r (emit (Log m1 a1) st1)) (publish e)
                         else Ok (publish e (emit (Log m2 a2) st1)))
                   else Ok (publish e (turn_off cfg e r' (emit (Log m3 a3) st1))))"
  shows "mode (final R) = Auto \<and>
     (\<not> (P \<and> D) \<longrightarrow> (\<exists>s. R = Ok s) \<and> all_off cfg st (final R)) \<and>
     (P \<and> D \<and> G \<longrightarrow> list_all is_turn_on (commands st (final R)) \<and> (\<forall>s. R = Ok s \<longrightarrow> all_on cfg st s)) \<and>
     (P \<and> D \<and> \<not> G \<longrightarrow> (\<exists>s. R = Ok s) \<and> commands st (final R) = [] \<and>
          expected_echo (final R) = expected_echo st) \<and>
     ((\<exists>c \<in> set (commands st (final R)). is_turn_on c) \<longrightarrow> P \<and> D \<and> G)"
proof -
  have tr1: "trace (emit (Log ma aa) st1) = trace st @ (pre @ [Log ma aa])" for ma aa
    by (simp add: tr)
  have np1: "filter is_call (pre @ [Log ma aa]) = []" for ma aa
    by (simp add: np)
  have m1: "mode (emit (Log ma aa) st1) = Auto" for ma aa
    by (simp add: emit_def m)
  show ?thesis
  proof (cases "P \<and> D")
    case False
    then have "(P \<and> D) = False" by simp
    with R have R': "R = Ok (publish e (turn_off cfg e r' (emit (Log m3 a3) st1)))"
      by (simp only: if_False)
    have "mode (publish e (turn_off cfg e r' (emit (Log m3 a3) st1))) = Auto \<and>
      all_off cfg st (publish e (turn_off cfg e r' (emit (Log m3 a3) st1)))"
      by (rule off_branch [OF tr1 np1 m1])
    then have ob: "mode (publish e (turn_off cfg e r' (emit (Log m3 a3) st1))) = Auto"
      "all_off cfg st (publish e (turn_off cfg e r' (emit (Log m3 a3) st1)))"
      by simp_all
    then have "\<not> (\<exists>c \<in> set (commands st (final R)). is_turn_on c)"
      using off_not_on [of "commands st (final R)"] by (auto simp: R' final_def all_off_def)
    with False ob R' show ?thesis by (auto simp: final_def)
  next
    case True
    note pd = this
    show ?thesis
    proof (cases G)
      case True
      with pd have R': "R = after (turn_on cfg e r (emit (Log m1 a1) st1)) (publish e)"
        using R by simp
      from on_branch [OF tr1 np1 m1 R'] pd True show ?thesis by simp
    next
      case False
      with pd have R': "R = Ok (publish e (emit (Log m2 a2) st1))"
        using R by simp
      have c: "commands st (publish e (emit (Log m2 a2) st1)) = []"
        by (rule none_branch [OF tr1 np1])
      have "expected_echo (publish e (emit (Log m2 a2) st1)) = expected_echo st"
        by (simp add: publish_def emit_def ee)
      with c pd False R' m show ?thesis by (simp add: final_def)
    qed
  qed
qed

lemma motion_path:
  "reautomate_from_motion cfg e st =
     (if presence st \<and> is_dark_enough cfg e
      then (if automation_allowed cfg e ''on''
            then after (turn_on cfg e ''motion_reauto''
                   (emit (Log ''Re-automated (motion_reauto); motion present -> ensuring ON under auto.'' [])
                      (st\<lparr>motion_reauto_timer := None, mode := Auto\<rparr>))) (publish e)
            else Ok (publish e
                   (emit (Log ''Re-automated (motion_reauto); ON is blocked now; doing nothing.'' [])
                      (st\<lparr>motion_reauto_timer := None, mode := Auto\<rparr>))))
      else Ok (publish e (turn_off cfg e ''motion_reauto''
                   (emit (Log ''Re-automated (motion_reauto); no motion -> turning OFF.'' [])
                      (st\<lparr>motion_reauto_timer := None, mode := Auto\<rparr>)))))"
  by (simp add: reautomate_from_motion_def Let_def)

lemma manual_off_path:
  "reautomate_from_manual_off cfg e st =
     (if presence st \<and> is_dark_enough cfg e
      then (if automation_allowed cfg e ''on''
            then after (turn_on cfg e ''manual_off_timeout''
                   (emit (Log ''Re-automated (manual_off_timeout); presence -> turning ON.'' [])
                      (st\<lparr>mode := Auto\<rparr>))) (publish e)
            else Ok (publish e
                   (emit (Log ''Re-automated (manual_off_timeout); ON is blocked; doing nothing.'' [])
                      (st\<lparr>mode := Auto\<rparr>))))
      else Ok (publish e (turn_off cfg e ''manual_off_timeout''
                   (emit (Log ''Re-automated (manual_off_timeout); no presence or not dark -> turning OFF.'' [])
                      (st\<lparr>mode := Auto\<rparr>)))))"
  by (simp add: reautomate_from_manual_off_def Let_def)

lemma button_path:
  "accepted cfg data \<Longrightarrow>
   on_button_press cfg e data st =
     (if presence st \<and> is_dark_enough cfg e
      then (if True
            then after (turn_on cfg e ''event''
                   (emit (Log ''Re-automated (button.press); motion present -> ensuring ON under auto.'' [])
                      ((emit (Log ''Re-automate accepted from button.press for {}'' [AStr (reauto_button cfg)]) st)
                         \<lparr>mode := Auto\<rparr>))) (publish e)
            else Ok (publish e (emit (Log [] [])
                      ((emit (Log ''Re-automate accepted from button.press for {}'' [AStr (reauto_button cfg)]) st)
                         \<lparr>mode := Auto\<rparr>))))
      else Ok (publish e (turn_off cfg e ''event''
                   (emit (Log ''Re-automated (button.press); no motion or not dark -> turning OFF.'' [])
                      ((emit (Log ''Re-automate accepted from button.press for {}'' [AStr (reauto_button cfg)]) st)
                         \<lparr>mode := Auto\<rparr>)))))"
  by (simp add: on_button_press_def accepted_def Let_def emit_def)

text \<open>
  Claim C2, amended. Every re-automation path sets the mode to auto. When presence is false
  or the darkness condition fails, each path issues turn-off for every light, whether or not
  OFF is blocked. When presence and darkness hold and ON is not blocked, each path issues
  turn-on commands only, for every light when the handler runs to its end. Turn-on is issued
  only when presence and darkness hold. The two timer paths moreover issue turn-on only when
  ON is not blocked, and when presence and darkness hold but ON is blocked they issue no
  command and leave the echo expectations as they were.
\<close>

theorem reautomation_paths:
  "((R = reautomate_from_motion cfg e st \<or> R = reautomate_from_manual_off cfg e st \<or>
     (accepted cfg data \<and> R = on_button_press cfg e data st)) \<longrightarrow>
      mode (final R) = Auto \<and>
      (\<not> (presence st \<and> is_dark_enough cfg e)
         \<longrightarrow> (\<exists>s. R = Ok s) \<and> all_off cfg st (final R)) \<and>
      (presence st \<and> is_dark_enough cfg e \<and> automation_allowed cfg e ''on''
         \<longrightarrow> list_all is_turn_on (commands st (final R)) \<and> (\<forall>s. R = Ok s \<longrightarrow> all_on cfg st s)) \<and>
      ((\<exists>c \<in> set (commands st (final R)). is_turn_on c)
         \<longrightarrow> presence st \<and> is_dark_enough cfg e)) \<and>
   ((R = reautomate_from_motion cfg e st \<or> R = reautomate_from_manual_off cfg e st) \<longrightarrow>
      (presence st \<and> is_dark_enough cfg e \<and> \<not> automation_allowed cfg e ''on''
         \<longrightarrow> (\<exists>s. R = Ok s) \<and> commands st (final R) = [] \<and>
             expected_echo (final R) = expected_echo st) \<and>
      ((\<exists>c \<in> set (commands st (final R)). is_turn_on c)
         \<longrightarrow> automation_allowed cfg e ''on''))"
proof -
  have A: "mode (final R) = Auto \<and>
      (\<not> (presence st \<and> is_dark_enough cfg e)
         \<longrightarrow> (\<exists>s. R = Ok s) \<and> all_off cfg st (final R)) \<and>
      (presence st \<and> is_dark_enough cfg e \<and> automation_allowed cfg e ''on''
         \<longrightarrow> list_all is_turn_on (commands st (final R)) \<and> (\<forall>s. R = Ok s \<longrightarrow> all_on cfg st s)) \<and>
      (presence st \<and> is_dark_enough cfg e \<and> \<not> automation_allowed cfg e ''on''
         \<longrightarrow> (\<exists>s. R = Ok s) \<and> commands st (final R) = [] \<and>
             expected_echo (final R) = expected_echo st) \<and>
      ((\<exists>c \<in> set (commands st (final R)). is_turn_on c)
         \<longrightarrow> presence st \<and> is_dark_enough cfg e \<and> automation_allowed cfg e ''on'')"
    if "R = reautomate_from_motion cfg e st \<or> R = reautomate_from_manual_off cfg e st"
    using that
  proof
    assume "R = reautomate_from_motion cfg e st"
    then have R: "R = (if presence st \<and> is_dark_enough cfg e
      then (if automation_allowed cfg e ''on''
            then after (turn_on cfg e ''motion_reauto''
                   (emit (Log ''Re-automated (motion_reauto); motion present -> ensuring ON under auto.'' [])
                      (st\<lparr>motion_reauto_timer := None, mode := Auto\<rparr>))) (publish e)
            else Ok (publish e
                   (emit (Log ''Re-automated (motion_reauto); ON is blocked now; doing nothing.'' [])
                      (st\<lparr>motion_reauto_timer := None, mode := Auto\<rparr>))))
      else Ok (publish e (turn_off cfg e ''motion_reauto''
                   (emit (Log ''Re-automated (motion_reauto); no motion -> turning OFF.'' [])
                      (st\<lparr>motion_reauto_timer := None, mode := Auto\<rparr>)))))"
      by (simp only: motion_path)
    show ?thesis
      by (rule path_facts [where pre = "[]", OF _ _ _ _ R]) simp_all
  next
    assume "R = reautomate_from_manual_off cfg e st"
    then have R: "R = (if presence st \<and> is_dark_enough cfg e
      then (if automation_allowed cfg e ''on''
            then after (turn_on cfg e ''manual_off_timeout''
                   (emit (Log ''Re-automated (manual_off_timeout); presence -> turning ON.'' [])
                      (st\<lparr>mode := Auto\<rparr>))) (publish e)
            else Ok (publish e
                   (emit (Log ''Re-automated (manual_off_timeout); ON is blocked; doing nothing.'' [])
                      (st\<lparr>mode := Auto\<rparr>))))
      else Ok (publish e (turn_off cfg e ''manual_off_timeout''
                   (emit (Log ''Re-automated (manual_off_timeout); no presence or not dark -> turning OFF.'' [])
                      (st\<lparr>mode := Auto\<rparr>)))))"
      by (simp only: manual_off_path)
    show ?thesis
      by (rule path_facts [where pre = "[]", OF _ _ _ _ R]) simp_all
  qed
  have B: "mode (final R) = Auto \<and>
      (\<not> (presence st \<and> is_dark_enough cfg e)
         \<longrightarrow> (\<exists>s. R = Ok s) \<and> all_off cfg st (final R)) \<and>
      (presence st \<and> is_dark_enough cfg e
         \<longrightarrow> list_all is_turn_on (commands st (final R)) \<and> (\<forall>s. R = Ok s \<longrightarrow> all_on cfg st s)) \<and>
      ((\<exists>c \<in> set (commands st (final R)). is_turn_on c)
         \<longrightarrow> presence st \<and> is_dark_enough cfg e)"
    if acc: "accepted cfg data" and Rb: "R = on_button_press cfg e data st"
  proof -
    note R = Rb [unfolded button_path [OF acc]]
    have "mode (final R) = Auto \<and>
     (\<not> (presence st \<and> is_dark_enough cfg e) \<longrightarrow> (\<exists>s. R = Ok s) \<and> all_off cfg st (final R)) \<and>
     (presence st \<and> is_dark_enough cfg e \<and> True \<longrightarrow> list_all is_turn_on (commands st (final R)) \<and> (\<forall>s. R = Ok s \<longrightarrow> all_on cfg st s)) \<and>
     (presence st \<and> is_dark_enough cfg e \<and> \<not> True \<longrightarrow> (\<exists>s. R = Ok s) \<and> commands st (final R) = [] \<and>
          expected_echo (final R) = expected_echo st) \<and>
     ((\<exists>c \<in> set (commands st (final R)). is_turn_on c) \<longrightarrow> presence st \<and> is_dark_enough cfg e \<and> True)"
      by (rule path_facts [where pre = "[Log ''Re-automate accepted from button.press for {}'' [AStr (reauto_button cfg)]]",
            OF _ _ _ _ R]) (simp_all add: emit_def)
    then show ?thesis by simp
  qed
  show ?thesis
    using A B by blast
qed

lemma night_blocks_off: "automation_allowed night_cfg (env_at 1000 1410 (\<lambda>x. None)) ''off'' = False"
  by (simp add: automation_allowed_def night_cfg_def blocked_now_night_both)

lemma night_blocks_on: "automation_allowed night_cfg (env_at 1000 1410 (\<lambda>x. None)) ''on'' = False"
  by (simp add: automation_allowed_def night_cfg_def blocked_now_night_both)

text \<open>
  Claim C2 as stated fails: at 23:30 the window 22:00 to 07:00 blocks both actions, presence
  is false, and each of the three paths still commands the light off.
\<close>

theorem reautomation_ignores_off_block_counterexample:
  "automation_allowed night_cfg (env_at 1000 1410 (\<lambda>x. None)) ''off'' = False \<and>
   presence (manual_state False) = False \<and>
   commands (manual_state False)
     (final (reautomate_from_motion night_cfg (env_at 1000 1410 (\<lambda>x. None)) (manual_state False)))
     = [Call ''light/turn_off'' ''light.a'' []] \<and>
   commands (manual_state False)
     (final (reautomate_from_manual_off night_cfg (env_at 1000 1410 (\<lambda>x. None)) (manual_state False)))
     = [Call ''light/turn_off'' ''light.a'' []] \<and>
   commands (manual_state False)
     (final (on_button_press night_cfg (env_at 1000 1410 (\<lambda>x. None))
               \<lparr>ev_domain = Some ''button'', ev_service = Some ''press'',
                ev_entity_id = EntOne ''button.reautomate_zone''\<rparr> (manual_state False)))
     = [Call ''light/turn_off'' ''light.a'' []]"
proof -
  have a: "presence (manual_state False) = False"
    by (simp add: manual_state_def)
  have b: "commands (manual_state False)
     (final (reautomate_from_motion night_cfg (env_at 1000 1410 (\<lambda>x. None)) (manual_state False)))
     = [Call ''light/turn_off'' ''light.a'' []]"
    by code_simp
  have c: "commands (manual_state False)
     (final (reautomate_from_manual_off night_cfg (env_at 1000 1410 (\<lambda>x. None)) (manual_state False)))
     = [Call ''light/turn_off'' ''light.a'' []]"
    by code_simp
  have d: "commands (manual_state False)
     (final (on_button_press night_cfg (env_at 1000 1410 (\<lambda>x. None))
               \<lparr>ev_domain = Some ''button'', ev_service = Some ''press'',
                ev_entity_id = EntOne ''button.reautomate_zone''\<rparr> (manual_state False)))
     = [Call ''light/turn_off'' ''light.a'' []]"
    by code_simp
  from night_blocks_off a b c d show ?thesis by simp
qed

text \<open>
  With presence, no illuminance sensor and no block, the motion timer path turns the light
  on; in the blocked night window the manual-off timer path issues nothing; without
  presence the button path turns the light off.
\<close>

theorem reautomation_paths_witness:
  "presence (manual_state True) \<and>
   is_dark_enough base_cfg (env_at 1000 600 (\<lambda>x. None)) \<and>
   automation_allowed base_cfg (env_at 1000 600 (\<lambda>x. None)) ''on'' \<and>
   mode (final (reautomate_from_motion base_cfg (env_at 1000 600 (\<lambda>x. None)) (manual_state True))) = Auto \<and>
   all_on base_cfg (manual_state True)
     (final (reautomate_from_motion base_cfg (env_at 1000 600 (\<lambda>x. None)) (manual_state True))) \<and>
   \<not> automation_allowed night_cfg (env_at 1000 1410 (\<lambda>x. None)) ''on'' \<and>
   commands (manual_state True)
     (final (reautomate_from_manual_off night_cfg (env_at 1000 1410 (\<lambda>x. None)) (manual_state True))) = [] \<and>
   all_off base_cfg (manual_state False)
     (final (on_button_press base_cfg (env_at 1000 600 (\<lambda>x. None))
               \<lparr>ev_domain = Some ''button'', ev_service = Some ''press'',
                ev_entity_id = EntOne ''button.reautomate_zone''\<rparr> (manual_state False)))"
proof -
  let ?e = "env_at 1000 600 (\<lambda>x. None)"
  let ?n = "env_at 1000 1410 (\<lambda>x. None)"
  let ?d = "\<lparr>ev_domain = Some ''button'', ev_service = Some ''press'',
            ev_entity_id = EntOne ''button.reautomate_zone''\<rparr>"
  have p: "presence (manual_state True)" "\<not> presence (manual_state False)"
    by (simp_all add: manual_state_def)
  have dk: "is_dark_enough base_cfg ?e" "is_dark_enough night_cfg ?n"
    by (simp_all add: is_dark_enough_def base_cfg_def night_cfg_def str_truthy_def)
  have al: "automation_allowed base_cfg ?e ''on''"
    by (simp add: automation_allowed_def blocked_now_def base_cfg_def str_truthy_def
        within_window_def)
  have ok: "\<exists>s. reautomate_from_motion base_cfg ?e (manual_state True) = Ok s"
    by (simp add: reautomate_from_motion_def p dk al turn_on_def base_cfg_def str_truthy_def
        after_def bp_data_def Let_def)
  have acc: "accepted base_cfg ?d"
    by (simp add: accepted_def ent_truthy_def as_list_def reauto_button_def base_cfg_def)
  show ?thesis
    using reautomation_paths [of "reautomate_from_motion base_cfg ?e (manual_state True)"
            base_cfg ?e "manual_state True" ?d]
          reautomation_paths [of "reautomate_from_manual_off night_cfg ?n (manual_state True)"
            night_cfg ?n "manual_state True" ?d]
          reautomation_paths [of "on_button_press base_cfg ?e ?d (manual_state False)"
            base_cfg ?e "manual_state False" ?d]
          p dk al ok acc night_blocks_on
    by (auto simp: final_def)
qed

subsection \<open>The timers with a kept handle\<close>

lemma ok_frame: "tstate st' = tstate st \<Longrightarrow> timers_ok st' = timers_ok st"
  by (simp add: tstate_def timers_ok_def)

lemma tstate_emit [simp]: "tstate (emit x st) = tstate st"
  by (simp add: tstate_def emit_def)

lemma tstate_publish [simp]: "tstate (publish e st) = tstate st"
  by (simp add: publish_def)

lemma tstate_fold:
  assumes "\<And>l s. tstate (f l s) = tstate s"
  shows "tstate (fold f ls st) = tstate st"
  using assms by (induction ls arbitrary: st) simp_all

lemma tstate_mark [simp]: "tstate (mark_expected_echo cfg e s st) = tstate st"
  unfolding mark_expected_echo_def by (rule tstate_fold) (simp add: tstate_def)

lemma tstate_turn_off [simp]: "tstate (turn_off cfg e r st) = tstate st"
  unfolding turn_off_def by (simp add: tstate_fold)

lemma tstate_turn_on_lights [simp]: "tstate (final (turn_on_lights bp ct ac ls st)) = tstate st"
  by (induction ls arbitrary: st) (auto simp: final_def split: option.splits)

lemma tstate_after [simp]:
  "(\<And>s. tstate (f s) = tstate s) \<Longrightarrow> tstate (final (after r f)) = tstate (final r)"
  by (cases r) (simp_all add: after_def final_def)

lemma tstate_turn_on [simp]: "tstate (final (turn_on cfg e r st)) = tstate st"
  by (auto simp: turn_on_def Let_def final_def [of "Exn x" for x] split: prod.splits option.splits)

lemma tstate_media_dim_light [simp]: "tstate (media_dim_light e t l st) = tstate st"
  by (simp add: media_dim_light_def Let_def tstate_def emit_def)

lemma tstate_apply_media [simp]: "tstate (apply_media_dimming cfg e st) = tstate st"
  by (simp add: apply_media_dimming_def Let_def tstate_fold split: option.splits)

lemma tstate_restore [simp]: "tstate (restore_from_media cfg st) = tstate st"
proof -
  have a: "tstate (fold (\<lambda>l s. if starts_with l ''light.''
                             then emit (Call ''light/turn_on'' l [(''brightness_pct'', a)]) s
                             else s) ls st) = tstate st" for a ls
    by (rule tstate_fold) simp
  have b: "tstate (fold (\<lambda>(l, pct) s.
                    if \<not> starts_with l ''light.'' then s
                    else (case pct of
                            None \<Rightarrow> s
                          | Some p \<Rightarrow> emit (Call ''light/turn_on'' l [(''brightness_pct'', p)]) s))
              xs st) = tstate st" for xs
    by (rule tstate_fold) (auto split: option.splits)
  have c: "tstate (s\<lparr>before_media_brightness_pct := []\<rparr>) = tstate s" for s
    by (simp add: tstate_def)
  show ?thesis
    by (simp add: restore_from_media_def a b c split: option.splits)
qed

lemma tstate_al_set [simp]: "tstate (al_set_manual_control cfg ls st) = tstate st"
  by (simp add: al_set_manual_control_def)

lemma tstate_al_reset [simp]: "tstate (al_reset cfg ls st) = tstate st"
  by (simp add: al_reset_def)

lemma tstate_ignore [simp]: "tstate (snd (ignore_if_expected_echo e ent old new st)) = tstate st"
  by (simp add: ignore_if_expected_echo_def ack_echo_def tstate_def emit_def split: option.splits)


lemma tstate_upd [simp]:
  "tstate (st\<lparr>mode := m\<rparr>) = tstate st"
  "tstate (st\<lparr>presence := p\<rparr>) = tstate st"
  "tstate (st\<lparr>media_playing := mp\<rparr>) = tstate st"
  by (simp_all add: tstate_def)

lemma final_Ok [simp]: "final (Ok s) = s"
  by (simp add: final_def)

lemma ok_emit [simp]: "timers_ok (emit x st) = timers_ok st"
  by (rule ok_frame) simp

lemma ok_publish [simp]: "timers_ok (publish e st) = timers_ok st"
  by (rule ok_frame) simp

lemma ok_upd [simp]:
  "timers_ok (st\<lparr>mode := m\<rparr>) = timers_ok st"
  "timers_ok (st\<lparr>presence := p\<rparr>) = timers_ok st"
  "timers_ok (st\<lparr>media_playing := mp\<rparr>) = timers_ok st"
  by (rule ok_frame, simp)+

lemma ok_turn_off [simp]: "timers_ok (turn_off cfg e r st) = timers_ok st"
  by (rule ok_frame) simp

lemma ok_turn_on_publish [simp]:
  "timers_ok (final (after (turn_on cfg e r st) (publish e))) = timers_ok st"
  by (rule ok_frame) simp

lemma ok_apply_media [simp]: "timers_ok (apply_media_dimming cfg e st) = timers_ok st"
  by (rule ok_frame) simp

lemma ok_restore [simp]: "timers_ok (restore_from_media cfg st) = timers_ok st"
  by (rule ok_frame) simp

lemma ok_al_set [simp]: "timers_ok (al_set_manual_control cfg ls st) = timers_ok st"
  by (rule ok_frame) simp

lemma ok_al_reset [simp]: "timers_ok (al_reset cfg ls st) = timers_ok st"
  by (rule ok_frame) simp

lemma ok_ignore [simp]: "timers_ok (snd (ignore_if_expected_echo e ent old new st)) = timers_ok st"
  by (rule ok_frame) simp

lemma ok_cancel: "timers_ok st \<Longrightarrow> timers_ok (cancel_timer_safe h st)"
  by (auto simp: timers_ok_def cancel_timer_safe_def distinct_map_filter split: option.splits)

lemma ok_schedule_off: "timers_ok st \<Longrightarrow> timers_ok (schedule_off cfg e st)"
  by (cases "off_timer st")
     (auto simp: timers_ok_def schedule_off_def run_in_def cancel_timer_safe_def emit_def
        distinct_map_filter less_Suc_eq)

lemma ok_motion_schedule:
  "timers_ok st \<Longrightarrow>
   timers_ok (case run_in e ReautomateFromMotion d (cancel_timer_safe (motion_reauto_timer st) st) of
                (n, s) \<Rightarrow> emit x (s\<lparr>motion_reauto_timer := Some n\<rparr>))"
  by (cases "motion_reauto_timer st")
     (auto simp: timers_ok_def run_in_def cancel_timer_safe_def emit_def
        distinct_map_filter less_Suc_eq)

lemma ok_manual_off_schedule:
  "timers_ok st \<Longrightarrow> timers_ok (snd (run_in e ReautomateFromManualOff d st))"
  by (auto simp: timers_ok_def run_in_def less_Suc_eq)

lemma ok_al_schedule: "timers_ok st \<Longrightarrow> timers_ok (al_schedule_reset_for cfg e ent st)"
  by (cases "al_manual_timers st ent")
     (auto simp: timers_ok_def al_schedule_reset_for_def run_in_def cancel_timer_safe_def Let_def
        distinct_map_filter less_Suc_eq split: option.splits)

lemma ok_motion_schedule':
  "timers_ok st \<Longrightarrow> motion_reauto_timer st = h \<Longrightarrow>
   timers_ok (case run_in e ReautomateFromMotion d (cancel_timer_safe h st) of
                (n, s) \<Rightarrow> emit x (s\<lparr>motion_reauto_timer := Some n\<rparr>))"
  using ok_motion_schedule [where st = st and e = e and d = d and x = x] by simp

lemma mode_motion_schedule:
  "mode (case run_in e cb d s0 of (n, s) \<Rightarrow> emit x (s\<lparr>motion_reauto_timer := Some n\<rparr>)) = mode s0"
  by (simp add: run_in_def)

lemma ok_on_motion:
  assumes ok: "timers_ok st"
  shows "timers_ok (final (on_motion cfg e ent old new st))"
proof (cases "mode st = ManualOn \<and> occupied new")
  case True
  have "on_motion cfg e ent old new st =
      Ok (publish e
        (case run_in e ReautomateFromMotion (motion_reauto_seconds cfg)
                (cancel_timer_safe (motion_reauto_timer st) (st\<lparr>presence := True\<rparr>)) of
           (n, s) \<Rightarrow>
             emit (Log ''Motion during manual_on; scheduling quick re-automate.'' [])
               (s\<lparr>motion_reauto_timer := Some n\<rparr>)))"
    using True by (simp add: on_motion_def Let_def mode_motion_schedule)
  moreover have "timers_ok
        (case run_in e ReautomateFromMotion (motion_reauto_seconds cfg)
                (cancel_timer_safe (motion_reauto_timer st) (st\<lparr>presence := True\<rparr>)) of
           (n, s) \<Rightarrow>
             emit (Log ''Motion during manual_on; scheduling quick re-automate.'' [])
               (s\<lparr>motion_reauto_timer := Some n\<rparr>))"
    by (rule ok_motion_schedule') (simp_all add: ok)
  ultimately show ?thesis by simp
next
  case False
  let ?st1 = "st\<lparr>presence := occupied new\<rparr>"
  have ok1: "timers_ok ?st1" using ok by simp
  have ok3: "timers_ok (cancel_timer_safe (off_timer st) (st\<lparr>presence := p\<rparr>))" for p
    by (rule ok_cancel) (simp add: ok)
  have ok4: "timers_ok (schedule_off cfg e (st\<lparr>presence := p\<rparr>))" for p
    by (rule ok_schedule_off) (simp add: ok)
  have eq: "on_motion cfg e ent old new st =
      (if mode st \<noteq> Auto then Ok (publish e ?st1)
       else if occupied new then
           (if \<not> automation_allowed cfg e ''on''
               then Ok (publish e
                          (emit (Log ''Motion but automation is blocked now; ignoring ON.'' [])
                             (cancel_timer_safe (off_timer st) ?st1)))
               else if is_dark_enough cfg e then
                 (if \<not> any_light_on cfg e
                  then after (turn_on cfg e ''motion'' (cancel_timer_safe (off_timer st) ?st1)) (publish e)
                  else if media_playing (cancel_timer_safe (off_timer st) ?st1)
                          \<and> media_dim_brightness_pct cfg \<noteq> None
                  then Ok (publish e (apply_media_dimming cfg e (cancel_timer_safe (off_timer st) ?st1)))
                  else Ok (publish e (cancel_timer_safe (off_timer st) ?st1)))
               else Ok (publish e
                          (emit (Log ''Motion but not dark; leaving lights as-is.'' [])
                             (cancel_timer_safe (off_timer st) ?st1))))
         else
           Ok (publish e
                 (if \<not> any_motion_on cfg e then
                    (if automation_allowed cfg e ''off'' then schedule_off cfg e ?st1
                     else emit (Log ''Motion cleared but OFF is blocked now; leaving lights as-is.'' [])
                            ?st1)
                  else ?st1)))"
    using False by (auto simp: on_motion_def Let_def)
  show ?thesis
    unfolding eq using ok ok3 ok4 by simp
qed

lemma ok_on_light_power:
  assumes ok: "timers_ok st"
  shows "timers_ok (on_light_power cfg e ent old new st)"
proof -
  obtain b st1 where ig: "ignore_if_expected_echo e ent old new st = (b, st1)"
    by (cases "ignore_if_expected_echo e ent old new st")
  then have "st1 = snd (ignore_if_expected_echo e ent old new st)" by simp
  with ok have ok1: "timers_ok st1" by simp
  have c: "timers_ok (cancel_timer_safe (off_timer st1) (st1\<lparr>mode := m\<rparr>))" for m
    by (rule ok_cancel) (simp add: ok1)
  have on: "timers_ok (al_schedule_reset_for cfg e ent (al_set_manual_control cfg [ent]
                (emit x (cancel_timer_safe (off_timer st1) (st1\<lparr>mode := ManualOn\<rparr>)))))" for x
    by (rule ok_al_schedule) (simp add: c)
  have off: "timers_ok (snd (run_in e ReautomateFromManualOff d
                (emit x (cancel_timer_safe (off_timer st1) (st1\<lparr>mode := ManualOff\<rparr>)))))" for x d
    by (rule ok_manual_off_schedule) (simp add: c)
  show ?thesis
  proof (cases b)
    case True
    with ig ok ok1 show ?thesis by (simp add: on_light_power_def)
  next
    case False
    with ig ok ok1 on off show ?thesis by (simp add: on_light_power_def)
  qed
qed

lemma ok_on_light_attr:
  assumes ok: "timers_ok st"
  shows "timers_ok (on_light_attr cfg e ent attr old new st)"
proof -
  have c: "timers_ok (cancel_timer_safe (off_timer st) (st\<lparr>mode := m\<rparr>))" for m
    by (rule ok_cancel) (simp add: ok)
  have a: "timers_ok (al_schedule_reset_for cfg e ent (al_set_manual_control cfg [ent]
                (emit x (cancel_timer_safe (off_timer st) (st\<lparr>mode := ManualOn\<rparr>)))))" for x
    by (rule ok_al_schedule) (simp add: c)
  have b: "timers_ok (al_schedule_reset_for cfg e ent (al_set_manual_control cfg [ent] st))"
    by (rule ok_al_schedule) (simp add: ok)
  show ?thesis
    using ok a b by (simp add: on_light_attr_def)
qed

lemma ok_on_lux_changed:
  "timers_ok st \<Longrightarrow> timers_ok (final (on_lux_changed cfg e ent old new st))"
  by (simp add: on_lux_changed_def Let_def)

lemma ok_on_media_state:
  "timers_ok st \<Longrightarrow> timers_ok (on_media_state cfg e ent old new st)"
  by (simp add: on_media_state_def Let_def)

lemma ok_on_button_press:
  "timers_ok st \<Longrightarrow> timers_ok (final (on_button_press cfg e data st))"
  by (simp add: on_button_press_def Let_def)

lemma ok_reautomate_from_manual_off:
  "timers_ok st \<Longrightarrow> timers_ok (final (reautomate_from_manual_off cfg e st))"
  by (simp add: reautomate_from_manual_off_def Let_def)

lemma tstate_reautomate_from_motion:
  "tstate (final (reautomate_from_motion cfg e st)) = tstate (st\<lparr>motion_reauto_timer := None\<rparr>)"
  by (simp add: reautomate_from_motion_def Let_def)

lemma tstate_auto_off_elapsed:
  "tstate (auto_off_elapsed cfg e st) = tstate (st\<lparr>off_timer := None\<rparr>)"
proof -
  define s where "s =
     (if mode st = Auto \<and> \<not> presence st then
        (if automation_allowed cfg e ''off''
         then turn_off cfg e ''auto_off''
                (emit (Log ''Auto-off timer elapsed; turning light off.'' []) st)
         else emit (Log ''Auto-off elapsed but OFF is blocked; keeping lights as-is.'' []) st)
      else st)"
  have a: "auto_off_elapsed cfg e st = s\<lparr>off_timer := None\<rparr>"
    by (simp add: auto_off_elapsed_def s_def)
  have b: "tstate s = tstate st"
    by (simp add: s_def)
  from b show ?thesis
    unfolding a by (simp add: tstate_def)
qed

lemma tstate_al_reset_timer_cb:
  "tstate (al_reset_timer_cb cfg ent st)
     = tstate (st\<lparr>al_manual_timers := (al_manual_timers st)(ent := None)\<rparr>)"
  by (simp add: al_reset_timer_cb_def)

lemma ok_fire:
  assumes ok: "timers_ok st"
  shows "timers_ok (final (fire cfg e n st))"
proof (cases "find (\<lambda>t. t_handle t = n) (pending st)")
  case None
  with ok show ?thesis by (simp add: fire_def)
next
  case (Some t)
  then have t: "t \<in> set (pending st)" "t_handle t = n"
    by (auto simp: find_Some_iff)
  let ?st1 = "st\<lparr>pending := filter (\<lambda>t. t_handle t \<noteq> n) (pending st)\<rparr>"
  have ok1: "timers_ok ?st1"
    using ok by (auto simp: timers_ok_def distinct_map_filter)
  show ?thesis
  proof (cases "t_cb t")
    case AutoOffElapsed
    have "off_timer st = Some n"
      using ok t AutoOffElapsed by (simp add: timers_ok_def)
    then have same: "t_handle ta = n" if "ta \<in> set (pending st)" "t_cb ta = AutoOffElapsed" for ta
      using ok that by (simp add: timers_ok_def)
    have "timers_ok (?st1\<lparr>off_timer := None\<rparr>)"
      using ok same by (auto simp: timers_ok_def distinct_map_filter)
    then have "timers_ok (auto_off_elapsed cfg e ?st1)"
      using ok_frame [OF tstate_auto_off_elapsed] by simp
    with Some AutoOffElapsed show ?thesis by (simp add: fire_def Let_def)
  next
    case ReautomateFromMotion
    have "motion_reauto_timer st = Some n"
      using ok t ReautomateFromMotion by (simp add: timers_ok_def)
    then have same: "t_handle ta = n" if "ta \<in> set (pending st)" "t_cb ta = ReautomateFromMotion" for ta
      using ok that by (simp add: timers_ok_def)
    have "timers_ok (?st1\<lparr>motion_reauto_timer := None\<rparr>)"
      using ok same by (auto simp: timers_ok_def distinct_map_filter)
    then have "timers_ok (final (reautomate_from_motion cfg e ?st1))"
      using ok_frame [OF tstate_reautomate_from_motion] by simp
    with Some ReautomateFromMotion show ?thesis by (simp add: fire_def Let_def)
  next
    case ReautomateFromManualOff
    with Some ok1 show ?thesis
      by (simp add: fire_def Let_def ok_reautomate_from_manual_off)
  next
    case (AlResetTimerCb ent)
    have "al_manual_timers st ent = Some n"
      using ok t AlResetTimerCb by (simp add: timers_ok_def)
    then have same: "t_handle ta = n" if "ta \<in> set (pending st)" "t_cb ta = AlResetTimerCb ent" for ta
      using ok that by (simp add: timers_ok_def)
    have "timers_ok (?st1\<lparr>al_manual_timers := (al_manual_timers ?st1)(ent := None)\<rparr>)"
      using ok same by (auto simp: timers_ok_def distinct_map_filter)
    then have "timers_ok (al_reset_timer_cb cfg ent ?st1)"
      using ok_frame [OF tstate_al_reset_timer_cb] by simp
    with Some AlResetTimerCb show ?thesis by (simp add: fire_def Let_def)
  qed
qed

lemma ok_handle_event: "timers_ok st \<Longrightarrow> timers_ok (handle_event cfg e ev st)"
  by (cases ev)
     (simp_all add: handle_event_def ok_on_motion ok_on_light_power ok_on_light_attr
        ok_on_lux_changed ok_on_media_state ok_on_button_press ok_fire)

lemma ok_initial: "timers_ok (initial_state e)"
  by (simp add: timers_ok_def initial_state_def)

lemma ok_run: "timers_ok st \<Longrightarrow> timers_ok (run cfg evs st)"
  by (induction evs arbitrary: st) (auto simp: ok_handle_event)

lemma at_most_one:
  assumes "distinct (map t_handle ps)" "\<And>t. t \<in> set ps \<Longrightarrow> P t \<Longrightarrow> t_handle t = h"
  shows "length (filter P ps) \<le> 1"
  using assms
proof (induction ps)
  case Nil
  then show ?case by simp
next
  case (Cons a ps)
  show ?case
  proof (cases "P a")
    case True
    have "filter P ps = []"
    proof (rule ccontr)
      assume "filter P ps \<noteq> []"
      then obtain t where t: "t \<in> set ps" "P t"
        by (metis filter_False)
      then have "t_handle t = h" "t_handle a = h" using Cons.prems True by auto
      with t Cons.prems(1) show False by (auto simp: image_iff)
    qed
    with True show ?thesis by simp
  next
    case False
    with Cons show ?thesis by auto
  qed
qed

text \<open>
  The three timers whose handle is kept are cancelled before they are scheduled again: after
  any sequence of events from start-up, at most one auto-off timer, at most one
  quick-re-automate timer and, for each light, at most one manual-hold timer is pending.
\<close>

lemma tracked_timers_at_most_one:
  "length (filter (\<lambda>t. t_cb t = AutoOffElapsed) (pending (run cfg evs (initial_state e0)))) \<le> 1 \<and>
   length (filter (\<lambda>t. t_cb t = ReautomateFromMotion) (pending (run cfg evs (initial_state e0)))) \<le> 1 \<and>
   length (filter (\<lambda>t. t_cb t = AlResetTimerCb ent) (pending (run cfg evs (initial_state e0)))) \<le> 1"
proof -
  let ?st = "run cfg evs (initial_state e0)"
  have ok: "timers_ok ?st" by (rule ok_run [OF ok_initial])
  then have d: "distinct (map t_handle (pending ?st))" by (simp add: timers_ok_def)
  have a: "length (filter (\<lambda>t. t_cb t = AutoOffElapsed) (pending ?st)) \<le> 1"
    by (rule at_most_one [OF d, where h = "the (off_timer ?st)"]) (use ok in \<open>auto simp: timers_ok_def\<close>)
  have b: "length (filter (\<lambda>t. t_cb t = ReautomateFromMotion) (pending ?st)) \<le> 1"
    by (rule at_most_one [OF d, where h = "the (motion_reauto_timer ?st)"])
       (use ok in \<open>auto simp: timers_ok_def\<close>)
  have c: "length (filter (\<lambda>t. t_cb t = AlResetTimerCb ent) (pending ?st)) \<le> 1"
    by (rule at_most_one [OF d, where h = "the (al_manual_timers ?st ent)"])
       (use ok in \<open>auto simp: timers_ok_def\<close>)
  from a b c show ?thesis by simp
qed

end
